theory Spec2Isabelle
  imports Main
begin

section \<open>The Smart ATS script (cover.py) as a state-passing program\<close>

text \<open>
  The repository is one Streamlit script. Every user interaction re-runs \<open>main\<close> from the
  top; the only value that survives from one run to the next is
  \<open>st.session_state.processing\<close>. The model below is one run of \<open>main\<close>: it takes the
  collaborators the script imports, the values the input widgets return in this run, the
  session state left by the previous run and the state of the remote service, and returns
  the final run state together with the ordered log of everything the run did (widgets
  drawn, collaborators called, assignments to the busy flag).

  Text is \<open>string\<close>, holding the UTF-8 bytes of the Python \<open>str\<close>; the four emoji of
  the fixed labels are written as their bytes.
\<close>

subsection \<open>Values\<close>

text \<open>What \<open>json.loads\<close> can return: dict, list, str, int, float, bool, None.
  A dict is an association list in insertion order, read through \<open>map_of\<close>; the keys
  of a decoded dict are distinct.
  A float read from a decimal literal is kept as that literal, \<open>Finite neg m e\<close> for
  the double nearest to \<open>m\<close> times ten to the \<open>e\<close> with the sign \<open>neg\<close> (an infinity
  when the literal is out of range), or as one of the three special values that
  \<open>json.loads\<close> accepts (\<open>Infinity True\<close> is the negative one).\<close>

datatype pyfloat = Finite bool nat int | Infinity bool | NaN

datatype json =
    JNull
  | JBool bool
  | JInt int
  | JFloat pyfloat
  | JStr string
  | JArr "json list"
  | JObj "(string \<times> json) list"

text \<open>Exceptions. \<open>Raised m\<close> is any exception raised inside a collaborator
  (\<open>helper\<close>, \<open>json\<close>), identified by its message. \<open>DecodeError\<close> is whatever
  \<open>json.loads\<close> raises on a text it does not decode (\<open>JSONDecodeError\<close>, and
  \<open>RecursionError\<close> or \<open>ValueError\<close> at the interpreter's limits); the script treats them
  alike. \<open>TypeError\<close> is raised by \<open>str.join\<close> and by \<open>st.metric\<close>, the other two by the
  interpreter while it runs \<open>main\<close> itself.\<close>

datatype exn =
    Raised string
  | DecodeError
  | UnboundLocalError string
  | AttributeError string
  | TypeError

text \<open>The argument of \<open>st.error\<close>/\<open>st.warning\<close>: a literal, or the f-string
  \<open>f"<prefix>{str(e)}"\<close>, kept as the prefix and the exception it formats.\<close>

datatype msg = Text string | TextExn string exn

datatype widget =
    Title string
  | Subheader string
  | Write json
  | Error msg
  | Warning msg
  | Success string
  | Metric string json
  | TextArea string
  | FileUploader string
  | TextInput string
  | Button string bool
  | Spinner string
  | DownloadButton string string string string

datatype 'f event =
    UI widget
  | SidebarUI widget
  | CallConfigure string
  | CallExtract 'f
  | CallPreparePrompt string string
  | CallGemini string
  | SetProcessing bool

subsection \<open>Collaborators, inputs and run state\<close>

text \<open>
  \<open>helper.py\<close> is not part of the sources, so its four functions are parameters. The
  decoder is a parameter too; \<open>py_loads\<close> below is the one the script imports. The two functions that talk to the remote service read and change
  its state \<open>'w\<close>; the PDF extractor and the prompt builder are functions of their
  arguments. \<open>getenv\<close> is the result of \<open>os.getenv("GOOGLE_API_KEY")\<close> after
  \<open>load_dotenv()\<close>.
\<close>

record ('f, 'w) env =
  getenv :: "string option"
  configure_genai :: "string \<Rightarrow> 'w \<Rightarrow> exn option \<times> 'w"
  extract_pdf_text :: "'f \<Rightarrow> exn + string"
  prepare_prompt :: "string \<Rightarrow> string \<Rightarrow> exn + string"
  get_gemini_response :: "string \<Rightarrow> 'w \<Rightarrow> (exn + string) \<times> 'w"
  json_loads :: "string \<Rightarrow> exn + json"

text \<open>The values the widgets return in this run. \<open>button label disabled\<close> is what
  \<open>st.button(label, disabled=disabled)\<close> returns.\<close>

record 'f inputs =
  jd :: string
  uploaded_file :: "'f option"
  company_name :: string
  job_title :: string
  personal_message :: string
  button :: "string \<Rightarrow> bool \<Rightarrow> bool"

text \<open>\<open>resume_text\<close> is the local variable of \<open>main\<close> of that name: \<open>None\<close> while it
  is unbound.\<close>

record ('f, 'w) run =
  processing :: bool
  resume_text :: "string option"
  world :: 'w
  trace :: "'f event list"

datatype 'a flow = Return 'a | Continue 'a

definition emit :: "'f event \<Rightarrow> ('f, 'w) run \<Rightarrow> ('f, 'w) run" where
  "emit e r = r\<lparr>trace := trace r @ [e]\<rparr>"

definition set_processing :: "bool \<Rightarrow> ('f, 'w) run \<Rightarrow> ('f, 'w) run" where
  "set_processing b r = emit (SetProcessing b) (r\<lparr>processing := b\<rparr>)"

subsection \<open>Python operations the script applies to the decoded response\<close>

text \<open>The truth value of a Python value. A float is false when it is zero; the double
  nearest to a decimal literal is zero when the literal is at most \<open>2\<^sup>-\<^sup>1\<^sup>0\<^sup>7\<^sup>5\<close>, half the
  least positive double.\<close>

definition truthy :: "json \<Rightarrow> bool" where
  "truthy v =
     (case v of
        JNull \<Rightarrow> False
      | JBool b \<Rightarrow> b
      | JInt n \<Rightarrow> n \<noteq> 0
      | JFloat x \<Rightarrow>
          (case x of
             Finite neg m e \<Rightarrow> if 0 \<le> e then m \<noteq> 0 else 10 ^ nat (- e) < m * 2 ^ 1075
           | Infinity neg \<Rightarrow> True
           | NaN \<Rightarrow> True)
      | JStr s \<Rightarrow> s \<noteq> []
      | JArr xs \<Rightarrow> xs \<noteq> []
      | JObj kvs \<Rightarrow> kvs \<noteq> [])"

text \<open>\<open>d.get(key, default)\<close>: only a dict has the method.\<close>

definition py_get :: "json \<Rightarrow> string \<Rightarrow> json \<Rightarrow> exn + json" where
  "py_get d key dflt =
     (case d of
        JObj kvs \<Rightarrow> Inr (case map_of kvs key of None \<Rightarrow> dflt | Some v \<Rightarrow> v)
      | _ \<Rightarrow> Inl (AttributeError ''get''))"

fun join :: "string \<Rightarrow> string list \<Rightarrow> string" where
  "join sep [] = []"
| "join sep [x] = x"
| "join sep (x # y # ys) = x @ sep @ join sep (y # ys)"

definition is_JStr :: "json \<Rightarrow> bool" where
  "is_JStr v = (case v of JStr s \<Rightarrow> True | _ \<Rightarrow> False)"

definition str_of :: "json \<Rightarrow> string" where
  "str_of v = (case v of JStr s \<Rightarrow> s | _ \<Rightarrow> [])"

text \<open>The characters of a text: each byte that starts a UTF-8 sequence with the
  continuation bytes that follow it.\<close>

definition is_continuation :: "char \<Rightarrow> bool" where
  "is_continuation c \<longleftrightarrow> 0x80 \<le> (of_char c :: nat) \<and> (of_char c :: nat) < 0xC0"

fun characters :: "string \<Rightarrow> string list" where
  "characters [] = []"
| "characters (c # cs) =
     (case characters cs of
        [] \<Rightarrow> [[c]]
      | x # xs \<Rightarrow>
          (case x of
             [] \<Rightarrow> [c] # xs
           | b # bs \<Rightarrow> if is_continuation b then (c # x) # xs else [c] # x # xs))"

text \<open>\<open>sep.join(v)\<close>: a list must hold strings only, a string is iterated character by
  character, a dict is iterated over its keys, anything else is not iterable.\<close>

definition py_join :: "string \<Rightarrow> json \<Rightarrow> exn + string" where
  "py_join sep v =
     (case v of
        JArr xs \<Rightarrow> if list_all is_JStr xs then Inr (join sep (map str_of xs)) else Inl TypeError
      | JStr s \<Rightarrow> Inr (join sep (characters s))
      | JObj kvs \<Rightarrow> Inr (join sep (map fst kvs))
      | _ \<Rightarrow> Inl TypeError)"

text \<open>\<open>st.metric(label, value)\<close> takes an int (a bool is one), a float, a str or
  \<open>None\<close>, and raises \<open>TypeError\<close> for any other value; of the values \<open>json.loads\<close>
  returns these are the list and the dict.\<close>

definition metric_accepts :: "json \<Rightarrow> bool" where
  "metric_accepts v = (case v of JArr xs \<Rightarrow> False | JObj kvs \<Rightarrow> False | _ \<Rightarrow> True)"

subsection \<open>The script\<close>

definition init_session_state :: "bool option \<Rightarrow> bool" where
  "init_session_state ss = (case ss of None \<Rightarrow> False | Some p \<Rightarrow> p)"

definition emoji_dart :: string where
  "emoji_dart = [CHR 0xF0, CHR 0x9F, CHR 0x8E, CHR 0xAF]"

definition emoji_page :: string where
  "emoji_page = [CHR 0xF0, CHR 0x9F, CHR 0x93, CHR 0x84]"

definition emoji_chart :: string where
  "emoji_chart = [CHR 0xF0, CHR 0x9F, CHR 0x93, CHR 0x8A]"

definition emoji_sparkles :: string where
  "emoji_sparkles = [CHR 0xE2, CHR 0x9C, CHR 0xA8]"

definition emoji_memo :: string where
  "emoji_memo = [CHR 0xF0, CHR 0x9F, CHR 0x93, CHR 0x9D]"

definition nl :: string where
  "nl = [CHR 0x0A]"

text \<open>Lines 22 to 31: the API key and the configuration of the client.\<close>

definition startup :: "('f, 'w) env \<Rightarrow> ('f, 'w) run \<Rightarrow> ('f, 'w) run flow" where
  "startup env r =
     (case getenv env of
        None \<Rightarrow> Return (emit (UI (Error (Text ''Please set the GOOGLE_API_KEY in your .env file''))) r)
      | Some api_key \<Rightarrow>
          if api_key = [] then
            Return (emit (UI (Error (Text ''Please set the GOOGLE_API_KEY in your .env file''))) r)
          else
            (let r1 = emit (CallConfigure api_key) r in
             case configure_genai env api_key (world r1) of
               (Some e, w) \<Rightarrow>
                 Return (emit (UI (Error (TextExn ''Failed to configure API: '' e))) (r1\<lparr>world := w\<rparr>))
             | (None, w) \<Rightarrow> Continue (r1\<lparr>world := w\<rparr>)))"

text \<open>Lines 34 to 64: the sidebar and the input widgets (labels only; placeholders and
  help texts are left out).\<close>

definition sidebar_text :: string where
  "sidebar_text =
     '' '' @ nl @
     ''        This smart ATS helps you:'' @ nl @
     ''        - Evaluate resume-job description match'' @ nl @
     ''        - Identify missing keywords'' @ nl @
     ''        - Get personalized improvement suggestions'' @ nl @
     ''        ''"

definition form_events :: "'f event list" where
  "form_events =
     [SidebarUI (Title (emoji_dart @ '' Smart ATS'')),
      SidebarUI (Subheader ''About''),
      SidebarUI (Write (JStr sidebar_text)),
      UI (Title (emoji_page @ '' Smart ATS Resume Analyzer'')),
      UI (Subheader ''Optimize Your Resume for ATS''),
      UI (TextArea ''Job Description''),
      UI (FileUploader ''Resume (PDF)''),
      UI (TextInput ''Company Name''),
      UI (TextInput ''Job Title''),
      UI (TextArea ''Personal Message'')]"

definition render_form :: "('f, 'w) run \<Rightarrow> ('f, 'w) run" where
  "render_form r = r\<lparr>trace := trace r @ form_events\<rparr>"

text \<open>Lines 90 to 107: the rendering of the decoded response. The result is the
  exception that left the block, if any, and the run state reached. The other widget calls
  (\<open>st.success\<close>, \<open>st.subheader\<close>, \<open>st.write\<close>) take any value.\<close>

definition render_analysis :: "json \<Rightarrow> ('f, 'w) run \<Rightarrow> exn option \<times> ('f, 'w) run" where
  "render_analysis response_json r =
     (let r1 = emit (UI (Success (emoji_sparkles @ '' Analysis Complete!''))) r in
      case py_get response_json ''JD Match'' (JStr ''N/A'') of
        Inl e \<Rightarrow> (Some e, r1)
      | Inr match_percentage \<Rightarrow>
          if \<not> metric_accepts match_percentage then (Some TypeError, r1)
          else
            (let r2 = emit (UI (Subheader ''Missing Keywords''))
                        (emit (UI (Metric ''Match Score'' match_percentage)) r1) in
             case py_get response_json ''MissingKeywords'' (JArr []) of
               Inl e \<Rightarrow> (Some e, r2)
             | Inr missing_keywords \<Rightarrow>
                 (case (if truthy missing_keywords then py_join '', '' missing_keywords
                        else Inr ''No critical missing keywords found!'') of
                    Inl e \<Rightarrow> (Some e, r2)
                  | Inr line \<Rightarrow>
                      (let r3 = emit (UI (Subheader ''Profile Summary''))
                                  (emit (UI (Write (JStr line))) r2) in
                       case py_get response_json ''Profile Summary'' (JStr ''No summary available'') of
                         Inl e \<Rightarrow> (Some e, r3)
                       | Inr summary \<Rightarrow> (None, emit (UI (Write summary)) r3)))))"

text \<open>Lines 79 to 107: the body of the \<open>try\<close> of the Analyze action.\<close>

definition analyze_try ::
  "('f, 'w) env \<Rightarrow> 'f inputs \<Rightarrow> 'f \<Rightarrow> ('f, 'w) run \<Rightarrow> exn option \<times> ('f, 'w) run" where
  "analyze_try env inp file r =
     (let r1 = emit (CallExtract file) (emit (UI (Spinner (emoji_chart @ '' Analyzing your resume...''))) r) in
      case extract_pdf_text env file of
        Inl e \<Rightarrow> (Some e, r1)
      | Inr txt \<Rightarrow>
          (let r2 = emit (CallPreparePrompt txt (jd inp)) (r1\<lparr>resume_text := Some txt\<rparr>) in
           case prepare_prompt env txt (jd inp) of
             Inl e \<Rightarrow> (Some e, r2)
           | Inr input_prompt \<Rightarrow>
               (let r3 = emit (CallGemini input_prompt) r2 in
                case get_gemini_response env input_prompt (world r3) of
                  (Inl e, w) \<Rightarrow> (Some e, r3\<lparr>world := w\<rparr>)
                | (Inr response, w) \<Rightarrow>
                    (case json_loads env response of
                       Inl e \<Rightarrow> (Some e, r3\<lparr>world := w\<rparr>)
                     | Inr response_json \<Rightarrow> render_analysis response_json (r3\<lparr>world := w\<rparr>)))))"

text \<open>The \<open>except Exception\<close> and \<open>finally\<close> clauses shared by both actions.\<close>

definition except_finally :: "exn option \<times> ('f, 'w) run \<Rightarrow> ('f, 'w) run" where
  "except_finally res =
     (case res of
        (None, r) \<Rightarrow> set_processing False r
      | (Some e, r) \<Rightarrow>
          set_processing False (emit (UI (Error (TextExn ''An error occurred: '' e))) r))"

text \<open>Lines 67 to 113: the Analyze action.\<close>

definition analyze_section ::
  "('f, 'w) env \<Rightarrow> 'f inputs \<Rightarrow> ('f, 'w) run \<Rightarrow> ('f, 'w) run flow" where
  "analyze_section env inp r =
     (let r0 = emit (UI (Button ''Analyze Resume'' (processing r))) r in
      if button inp ''Analyze Resume'' (processing r) then
        if jd inp = [] then
          Return (emit (UI (Warning (Text ''Please provide a job description.''))) r0)
        else
          (case uploaded_file inp of
             None \<Rightarrow> Return (emit (UI (Warning (Text ''Please upload a resume in PDF format.''))) r0)
           | Some file \<Rightarrow>
               Continue (except_finally (analyze_try env inp file (set_processing True r0))))
      else Continue r0)"

text \<open>Lines 126 to 140: the f-string. Reading the unbound local raises.\<close>

definition cover_letter_prompt ::
  "string \<Rightarrow> string \<Rightarrow> string \<Rightarrow> string option \<Rightarrow> string \<Rightarrow> exn + string" where
  "cover_letter_prompt title company message resume jobdesc =
     (case resume of
        None \<Rightarrow> Inl (UnboundLocalError ''resume_text'')
      | Some text \<Rightarrow>
          Inr (nl @
            ''                Act as an expert cover letter writer. Write a personalized cover letter for the following job application:'' @ nl @
            nl @
            ''                Job Title: '' @ title @ nl @
            ''                Company: '' @ company @ nl @
            ''                Personal Message: '' @ message @ nl @
            nl @
            ''                Resume:'' @ nl @
            ''                '' @ text @ nl @
            nl @
            ''                Job Description:'' @ nl @
            ''                '' @ jobdesc @ nl @
            nl @
            ''                Provide a professional and persuasive cover letter.'' @ nl @
            ''                ''))"

text \<open>Lines 124 to 155: the body of the \<open>try\<close> of the Generate Cover Letter action.\<close>

definition cover_try ::
  "('f, 'w) env \<Rightarrow> 'f inputs \<Rightarrow> ('f, 'w) run \<Rightarrow> exn option \<times> ('f, 'w) run" where
  "cover_try env inp r =
     (let r1 = emit (UI (Spinner (emoji_memo @ '' Generating cover letter...''))) r in
      case cover_letter_prompt (job_title inp) (company_name inp) (personal_message inp)
             (resume_text r1) (jd inp) of
        Inl e \<Rightarrow> (Some e, r1)
      | Inr prompt \<Rightarrow>
          (let r2 = emit (CallGemini prompt) r1 in
           case get_gemini_response env prompt (world r2) of
             (Inl e, w) \<Rightarrow> (Some e, r2\<lparr>world := w\<rparr>)
           | (Inr cover_letter, w) \<Rightarrow>
               (None,
                emit (UI (DownloadButton ''Download Cover Letter'' cover_letter
                            ''cover_letter.txt'' ''text/plain''))
                  (emit (UI (Write (JStr cover_letter)))
                    (emit (UI (Subheader ''Generated Cover Letter'')) (r2\<lparr>world := w\<rparr>))))))"

text \<open>Lines 116 to 161: the Generate Cover Letter action. It is the last statement of
  \<open>main\<close>, so its \<open>return\<close> and its normal end both end the run.\<close>

definition cover_section ::
  "('f, 'w) env \<Rightarrow> 'f inputs \<Rightarrow> ('f, 'w) run \<Rightarrow> ('f, 'w) run" where
  "cover_section env inp r =
     (let r0 = emit (UI (Button ''Generate Cover Letter'' (processing r))) r in
      if button inp ''Generate Cover Letter'' (processing r) then
        if company_name inp = [] \<or> job_title inp = [] then
          emit (UI (Warning (Text ''Please provide company name and job title for the cover letter.''))) r0
        else except_finally (cover_try env inp (set_processing True r0))
      else r0)"

definition initial :: "bool option \<Rightarrow> 'w \<Rightarrow> ('f, 'w) run" where
  "initial ss w =
     \<lparr>processing = init_session_state ss, resume_text = None, world = w, trace = []\<rparr>"

definition main ::
  "('f, 'w) env \<Rightarrow> 'f inputs \<Rightarrow> bool option \<Rightarrow> 'w \<Rightarrow> ('f, 'w) run" where
  "main env inp ss w =
     (case startup env (initial ss w) of
        Return r \<Rightarrow> r
      | Continue r \<Rightarrow>
          (case analyze_section env inp (render_form r) of
             Return r' \<Rightarrow> r'
           | Continue r' \<Rightarrow> cover_section env inp r'))"


subsection \<open>The decoder \<open>json.loads\<close>\<close>

text \<open>
  \<open>json.loads\<close> of the standard library, as far as the script can tell: which texts it
  decodes, and to which value. The text is read in two passes that accept the same texts
  as the library's scanner: the characters are cut into tokens, and the tokens are parsed
  with an explicit stack of the containers that are still open. Text is UTF-8, so the
  structural characters, the whitespace and the escapes are single bytes and every other
  byte of a string literal is copied.
\<close>

definition is_ws :: "char \<Rightarrow> bool" where
  "is_ws c \<longleftrightarrow> c \<in> set [CHR '' '', CHR 0x09, CHR 0x0A, CHR 0x0D]"

definition is_digit :: "char \<Rightarrow> bool" where
  "is_digit c \<longleftrightarrow> c \<in> set ''0123456789''"

definition digit_val :: "char \<Rightarrow> nat" where
  "digit_val c = length (takeWhile (\<lambda>d. d \<noteq> c) ''0123456789'')"

definition hex_val :: "char \<Rightarrow> nat option" where
  "hex_val c =
     (if c \<in> set ''0123456789'' then Some (length (takeWhile (\<lambda>d. d \<noteq> c) ''0123456789''))
      else if c \<in> set ''abcdef'' then Some (10 + length (takeWhile (\<lambda>d. d \<noteq> c) ''abcdef''))
      else if c \<in> set ''ABCDEF'' then Some (10 + length (takeWhile (\<lambda>d. d \<noteq> c) ''ABCDEF''))
      else None)"

definition nat_of_digits :: "string \<Rightarrow> nat" where
  "nat_of_digits ds = foldl (\<lambda>n c. 10 * n + digit_val c) 0 ds"

text \<open>The four hexadecimal digits of a \<open>\uXXXX\<close> escape.\<close>

definition hex4 :: "char \<Rightarrow> char \<Rightarrow> char \<Rightarrow> char \<Rightarrow> nat option" where
  "hex4 a b c d =
     (case (hex_val a, hex_val b, hex_val c, hex_val d) of
        (Some x, Some y, Some z, Some w) \<Rightarrow> Some (((x * 16 + y) * 16 + z) * 16 + w)
      | _ \<Rightarrow> None)"

text \<open>The bytes of a code point. A lone surrogate is kept, in the three-byte form.\<close>

definition utf8 :: "nat \<Rightarrow> string" where
  "utf8 n =
     (if n < 0x80 then [char_of n]
      else if n < 0x800 then [char_of (0xC0 + n div 0x40), char_of (0x80 + n mod 0x40)]
      else if n < 0x10000 then
        [char_of (0xE0 + n div 0x1000), char_of (0x80 + n div 0x40 mod 0x40), char_of (0x80 + n mod 0x40)]
      else
        [char_of (0xF0 + n div 0x40000), char_of (0x80 + n div 0x1000 mod 0x40),
         char_of (0x80 + n div 0x40 mod 0x40), char_of (0x80 + n mod 0x40)])"

definition simple_escape :: "char \<Rightarrow> char option" where
  "simple_escape e =
     (if e = CHR 0x22 then Some (CHR 0x22)
      else if e = CHR 0x5C then Some (CHR 0x5C)
      else if e = CHR ''/'' then Some (CHR ''/'')
      else if e = CHR ''b'' then Some (CHR 0x08)
      else if e = CHR ''f'' then Some (CHR 0x0C)
      else if e = CHR ''n'' then Some (CHR 0x0A)
      else if e = CHR ''r'' then Some (CHR 0x0D)
      else if e = CHR ''t'' then Some (CHR 0x09)
      else None)"

text \<open>A \<open>\uXXXX\<close> escape of a low surrogate at the head of the text.\<close>

definition low_surrogate :: "string \<Rightarrow> nat option" where
  "low_surrogate s =
     (case s of
        bs # u # a # b # c # d # _ \<Rightarrow>
          if bs = CHR 0x5C \<and> u = CHR ''u'' then
            (case hex4 a b c d of
               Some l \<Rightarrow> if 0xDC00 \<le> l \<and> l \<le> 0xDFFF then Some l else None
             | None \<Rightarrow> None)
          else None
      | _ \<Rightarrow> None)"

text \<open>A string literal after its opening quote: the decoded bytes and the number of
  characters read, the closing quote included. Control characters must be escaped; a high
  surrogate directly followed by the escape of a low one joins it.\<close>

fun lex_string :: "string \<Rightarrow> (string \<times> nat) option" where
  "lex_string [] = None"
| "lex_string (c # cs) =
     (if c = CHR 0x22 then Some ([], 1)
      else if c = CHR 0x5C then
        (case cs of
           [] \<Rightarrow> None
         | e # r \<Rightarrow>
             if e = CHR ''u'' then
               (case r of
                  a # b # c' # d # r' \<Rightarrow>
                    (case hex4 a b c' d of
                       None \<Rightarrow> None
                     | Some h \<Rightarrow>
                         (case (if 0xD800 \<le> h \<and> h \<le> 0xDBFF then low_surrogate r' else None) of
                            Some l \<Rightarrow>
                              map_option (\<lambda>(s, n). (utf8 (0x10000 + (h - 0xD800) * 0x400 + (l - 0xDC00)) @ s, n + 12))
                                (lex_string (drop 6 r'))
                          | None \<Rightarrow>
                              map_option (\<lambda>(s, n). (utf8 h @ s, n + 6)) (lex_string r')))
                | _ \<Rightarrow> None)
             else
               (case simple_escape e of
                  None \<Rightarrow> None
                | Some x \<Rightarrow> map_option (\<lambda>(s, n). (x # s, n + 2)) (lex_string r)))
      else if (of_char c :: nat) < 0x20 then None
      else map_option (\<lambda>(s, n). (c # s, n + 1)) (lex_string cs))"

text \<open>A number literal: an optional minus, \<open>0\<close> or digits without a leading zero, an
  optional fraction, an optional exponent. Without fraction and exponent it is an int,
  refused beyond the digit limit; otherwise a float. The result is the value and the number
  of characters read.\<close>

definition lex_number :: "nat option \<Rightarrow> string \<Rightarrow> (json \<times> nat) option" where
  "lex_number max_digits s =
     (let neg = (case s of [] \<Rightarrow> False | c # _ \<Rightarrow> c = CHR ''-'');
          s1 = (if neg then drop 1 s else s);
          ip = (case s1 of [] \<Rightarrow> [] | c # _ \<Rightarrow> if c = CHR ''0'' then [c] else takeWhile is_digit s1);
          s2 = drop (length ip) s1;
          fr = (case s2 of [] \<Rightarrow> [] | c # r \<Rightarrow> if c = CHR ''.'' then takeWhile is_digit r else []);
          s3 = (if fr = [] then s2 else drop (1 + length fr) s2);
          sg = (case s3 of e # g # _ \<Rightarrow> if (e = CHR ''e'' \<or> e = CHR ''E'') \<and> (g = CHR ''+'' \<or> g = CHR ''-'') then [g] else []
                 | _ \<Rightarrow> []);
          ex = (case s3 of [] \<Rightarrow> [] | e # r \<Rightarrow>
                  if e = CHR ''e'' \<or> e = CHR ''E'' then takeWhile is_digit (drop (length sg) r) else []);
          used = (if neg then 1 else 0) + length ip + (if fr = [] then 0 else 1 + length fr)
                 + (if ex = [] then 0 else 1 + length sg + length ex)
      in if ip = [] then None
         else if fr = [] \<and> ex = [] then
           (case max_digits of
              None \<Rightarrow> Some (JInt (if neg then - int (nat_of_digits ip) else int (nat_of_digits ip)), used)
            | Some m \<Rightarrow>
                if m < length ip then None
                else Some (JInt (if neg then - int (nat_of_digits ip) else int (nat_of_digits ip)), used))
         else
           Some (JFloat (Finite neg (nat_of_digits (ip @ fr))
                   ((if sg = ''-'' then - int (nat_of_digits ex) else int (nat_of_digits ex)) - int (length fr))),
                 used))"

datatype token = TLBrace | TRBrace | TLBrack | TRBrack | TColon | TComma | TValue json

text \<open>The tokens of a text; \<open>k\<close> admits the constants \<open>NaN\<close>, \<open>Infinity\<close> and
  \<open>-Infinity\<close>.\<close>

fun lex :: "bool \<Rightarrow> nat option \<Rightarrow> string \<Rightarrow> token list option" where
  "lex k md [] = Some []"
| "lex k md (c # cs) =
     (if is_ws c then lex k md cs
      else if c = CHR ''{'' then map_option ((#) TLBrace) (lex k md cs)
      else if c = CHR ''}'' then map_option ((#) TRBrace) (lex k md cs)
      else if c = CHR ''['' then map_option ((#) TLBrack) (lex k md cs)
      else if c = CHR '']'' then map_option ((#) TRBrack) (lex k md cs)
      else if c = CHR '':'' then map_option ((#) TColon) (lex k md cs)
      else if c = CHR '','' then map_option ((#) TComma) (lex k md cs)
      else if c = CHR 0x22 then
        (case lex_string cs of
           None \<Rightarrow> None
         | Some (s, n) \<Rightarrow> map_option ((#) (TValue (JStr s))) (lex k md (drop n cs)))
      else if take 4 (c # cs) = ''null'' then map_option ((#) (TValue JNull)) (lex k md (drop 3 cs))
      else if take 4 (c # cs) = ''true'' then map_option ((#) (TValue (JBool True))) (lex k md (drop 3 cs))
      else if take 5 (c # cs) = ''false'' then map_option ((#) (TValue (JBool False))) (lex k md (drop 4 cs))
      else if k \<and> take 3 (c # cs) = ''NaN'' then map_option ((#) (TValue (JFloat NaN))) (lex k md (drop 2 cs))
      else if k \<and> take 8 (c # cs) = ''Infinity'' then
        map_option ((#) (TValue (JFloat (Infinity False)))) (lex k md (drop 7 cs))
      else if k \<and> take 9 (c # cs) = ''-Infinity'' then
        map_option ((#) (TValue (JFloat (Infinity True)))) (lex k md (drop 8 cs))
      else
        (case lex_number md (c # cs) of
           None \<Rightarrow> None
         | Some (v, n) \<Rightarrow> map_option ((#) (TValue v)) (lex k md (drop (n - 1) cs))))"

text \<open>A dict built from pairs: a repeated key keeps its first place and takes the last
  value.\<close>

fun dict_set :: "string \<Rightarrow> json \<Rightarrow> (string \<times> json) list \<Rightarrow> (string \<times> json) list" where
  "dict_set k v [] = [(k, v)]"
| "dict_set k v (p # ps) = (if fst p = k then (k, v) # ps else p # dict_set k v ps)"

definition py_dict :: "(string \<times> json) list \<Rightarrow> (string \<times> json) list" where
  "py_dict pairs = foldl (\<lambda>d (k, v). dict_set k v d) [] pairs"

text \<open>An open container: the elements read so far, latest first, and for an object the
  key that waits for its value. The mode says what may come next.\<close>

datatype frame = ArrF "json list" | ObjF "(string \<times> json) list" "string option"

datatype mode = Val | ValOrClose | KeyOrClose | Key | Colon | After | Done json

fun deliver :: "json \<Rightarrow> frame list \<Rightarrow> (frame list \<times> mode) option" where
  "deliver v [] = Some ([], Done v)"
| "deliver v (ArrF vs # st) = Some (ArrF (v # vs) # st, After)"
| "deliver v (ObjF ps (Some k) # st) = Some (ObjF ((k, v) # ps) None # st, After)"
| "deliver v (ObjF ps None # st) = None"

text \<open>Opening a container inside \<open>n\<close> open ones is refused at the depth limit \<open>n\<close>.\<close>

definition too_deep :: "nat option \<Rightarrow> frame list \<Rightarrow> bool" where
  "too_deep d st = (case d of None \<Rightarrow> False | Some n \<Rightarrow> n \<le> length st)"

definition value_token :: "nat option \<Rightarrow> token \<Rightarrow> frame list \<Rightarrow> (frame list \<times> mode) option" where
  "value_token d t st =
     (case t of
        TValue v \<Rightarrow> deliver v st
      | TLBrack \<Rightarrow> if too_deep d st then None else Some (ArrF [] # st, ValOrClose)
      | TLBrace \<Rightarrow> if too_deep d st then None else Some (ObjF [] None # st, KeyOrClose)
      | _ \<Rightarrow> None)"

definition key_token :: "token \<Rightarrow> frame list \<Rightarrow> (frame list \<times> mode) option" where
  "key_token t st =
     (case (t, st) of
        (TValue (JStr k), ObjF ps None # st') \<Rightarrow> Some (ObjF ps (Some k) # st', Colon)
      | _ \<Rightarrow> None)"

definition parse_step :: "nat option \<Rightarrow> token \<Rightarrow> frame list \<Rightarrow> mode \<Rightarrow> (frame list \<times> mode) option" where
  "parse_step d t st m =
     (case m of
        Val \<Rightarrow> value_token d t st
      | ValOrClose \<Rightarrow>
          (case (t, st) of (TRBrack, ArrF [] # st') \<Rightarrow> deliver (JArr []) st' | _ \<Rightarrow> value_token d t st)
      | KeyOrClose \<Rightarrow>
          (case (t, st) of (TRBrace, ObjF [] None # st') \<Rightarrow> deliver (JObj []) st' | _ \<Rightarrow> key_token t st)
      | Key \<Rightarrow> key_token t st
      | Colon \<Rightarrow> (case t of TColon \<Rightarrow> Some (st, Val) | _ \<Rightarrow> None)
      | After \<Rightarrow>
          (case (t, st) of
             (TComma, ArrF vs # st') \<Rightarrow> Some (st, Val)
           | (TRBrack, ArrF vs # st') \<Rightarrow> deliver (JArr (rev vs)) st'
           | (TComma, ObjF ps None # st') \<Rightarrow> Some (st, Key)
           | (TRBrace, ObjF ps None # st') \<Rightarrow> deliver (JObj (py_dict (rev ps))) st'
           | _ \<Rightarrow> None)
      | Done v \<Rightarrow> None)"

fun parse :: "nat option \<Rightarrow> token list \<Rightarrow> frame list \<Rightarrow> mode \<Rightarrow> json option" where
  "parse d [] st m = (case m of Done v \<Rightarrow> Some v | _ \<Rightarrow> None)"
| "parse d (t # ts) st m =
     (case parse_step d t st m of None \<Rightarrow> None | Some (st', m') \<Rightarrow> parse d ts st' m')"

definition json_decode :: "bool \<Rightarrow> nat option \<Rightarrow> nat option \<Rightarrow> string \<Rightarrow> json option" where
  "json_decode k depth digits s =
     (case lex k digits s of None \<Rightarrow> None | Some ts \<Rightarrow> parse depth ts [] Val)"

text \<open>A text is valid JSON when it decodes without the three constants and without
  limits. \<open>json.loads\<close> admits the constants, gives up beyond a nesting depth and, from
  Python 3.11 on, beyond a number of digits in an integer literal (4300 unless configured).\<close>

definition valid_json :: "string \<Rightarrow> bool" where
  "valid_json s \<longleftrightarrow> json_decode False None None s \<noteq> None"

definition py_loads :: "nat option \<Rightarrow> nat option \<Rightarrow> string \<Rightarrow> exn + json" where
  "py_loads depth digits s =
     (case json_decode True depth digits s of None \<Rightarrow> Inl DecodeError | Some v \<Rightarrow> Inr v)"

text \<open>The first character that is not whitespace can begin a value or a constant.\<close>

definition starts_value :: "string \<Rightarrow> bool" where
  "starts_value s =
     (case dropWhile is_ws s of
        [] \<Rightarrow> False
      | c # cs \<Rightarrow> c = CHR 0x22 \<or> c \<in> set ''{[-0123456789tfnNI'')"


subsection \<open>Reading the log\<close>

text \<open>The calls an action makes: PDF extraction, prompt building and generation. The
  configuration of the client at startup is not one of them.\<close>

fun is_call :: "'f event \<Rightarrow> bool" where
  "is_call (CallExtract f) = True"
| "is_call (CallPreparePrompt t j) = True"
| "is_call (CallGemini p) = True"
| "is_call e = False"

fun is_flag :: "'f event \<Rightarrow> bool" where
  "is_flag (SetProcessing b) = True"
| "is_flag e = False"

fun is_button :: "'f event \<Rightarrow> bool" where
  "is_button (UI (Button l d)) = True"
| "is_button e = False"

text \<open>A stretch of the log that neither assigns the flag nor draws a button.\<close>

definition quiet :: "'f event list \<Rightarrow> bool" where
  "quiet es = list_all (\<lambda>e. \<not> is_flag e \<and> \<not> is_button e) es"

definition state_of :: "'a flow \<Rightarrow> 'a" where
  "state_of x = (case x of Return r \<Rightarrow> r | Continue r \<Rightarrow> r)"

text \<open>
  What the user can click while the script runs. A widget stays on screen as it was drawn
  until it is drawn again, so the screen is the \<open>disabled\<close> value each trigger was last
  drawn with in this run (a trigger not yet drawn in this run does not count). The screen
  is guarded when, with the flag set, no trigger on it is enabled.
\<close>

definition guarded :: "bool \<times> (string \<rightharpoonup> bool) \<Rightarrow> bool" where
  "guarded st \<longleftrightarrow>
     (fst st \<longrightarrow> snd st ''Analyze Resume'' \<noteq> Some False \<and>
                snd st ''Generate Cover Letter'' \<noteq> Some False)"

text \<open>What an event does to the flag and the screen.\<close>

fun screen_step :: "'f event \<Rightarrow> bool \<times> (string \<rightharpoonup> bool) \<Rightarrow> bool \<times> (string \<rightharpoonup> bool)" where
  "screen_step (SetProcessing b) (flag, screen) = (b, screen)"
| "screen_step (UI (Button l d)) (flag, screen) = (flag, screen(l \<mapsto> d))"
| "screen_step e st = st"

text \<open>The screen is guarded before every event of the log and at its end.\<close>

fun disabled_while_busy :: "bool \<times> (string \<rightharpoonup> bool) \<Rightarrow> 'f event list \<Rightarrow> bool" where
  "disabled_while_busy st [] = guarded st"
| "disabled_while_busy st (e # es) = (guarded st \<and> disabled_while_busy (screen_step e st) es)"

fun drawn_disabled :: "'f event \<Rightarrow> bool" where
  "drawn_disabled (UI (Button l d)) = d"
| "drawn_disabled e = False"

text \<open>A run that started idle: it is idle, it has drawn no trigger disabled, and if it has
  set the flag its screen was not guarded.\<close>

definition idle_run :: "('f, 'w) run \<Rightarrow> bool" where
  "idle_run r \<longleftrightarrow>
     \<not> processing r \<and> list_all (\<lambda>e. \<not> drawn_disabled e) (trace r) \<and>
     (SetProcessing True \<in> set (trace r) \<longrightarrow> \<not> disabled_while_busy (False, Map.empty) (trace r))"

text \<open>What a run shows and keeps, without the state of the remote service.\<close>

definition view :: "('f, 'w) run \<Rightarrow> bool \<times> string option \<times> 'f event list" where
  "view r = (processing r, resume_text r, trace r)"

subsection \<open>Stubs for concrete runs\<close>

text \<open>
  A decoder for the handful of responses used below and nothing else; every other text is
  rejected with the message \<open>json.loads\<close> gives for text that does not start a JSON value.
  The stub service counts the requests it has served, so its state changes with every
  call while its answers do not. A stub button never fires while disabled.
\<close>

definition response_full :: string where
  \<open>response_full =
     ''{"JD Match": "80%", "MissingKeywords": ["Kubernetes", "Go"], "Profile Summary": "Strong backend candidate"}''\<close>

definition response_no_keywords :: string where
  \<open>response_no_keywords = ''{"JD Match": "80%", "MissingKeywords": []}''\<close>

definition response_fenced :: string where
  \<open>response_fenced = ''```json {"JD Match": "80%"} ```''\<close>

definition response_nan :: string where
  \<open>response_nan = ''{"JD Match": NaN}''\<close>

definition response_number_keyword :: string where
  \<open>response_number_keyword = ''{"MissingKeywords": ["Go", 5]}''\<close>

definition response_list_match :: string where
  \<open>response_list_match = ''{"JD Match": ["80%"]}''\<close>

definition response_truncated :: string where
  \<open>response_truncated = ''{"JD Match": "80%"''\<close>

definition stub_loads :: "string \<Rightarrow> exn + json" where
  "stub_loads s =
     (if s = response_full
      then Inr (JObj [(''JD Match'', JStr ''80%''),
                      (''MissingKeywords'', JArr [JStr ''Kubernetes'', JStr ''Go'']),
                      (''Profile Summary'', JStr ''Strong backend candidate'')])
      else if s = response_no_keywords
      then Inr (JObj [(''JD Match'', JStr ''80%''), (''MissingKeywords'', JArr [])])
      else if s = ''{}'' then Inr (JObj [])
      else Inl (Raised ''Expecting value: line 1 column 1 (char 0)''))"

definition stub_env :: "(exn + string) \<Rightarrow> (exn + string) \<Rightarrow> (string, nat) env" where
  "stub_env extraction response =
     \<lparr>getenv = Some ''test-key'',
      configure_genai = (\<lambda>k w. (None, w)),
      extract_pdf_text = (\<lambda>f. extraction),
      prepare_prompt = (\<lambda>t j. Inr (t @ '' | '' @ j)),
      get_gemini_response = (\<lambda>p w. (response, Suc w)),
      json_loads = stub_loads\<rparr>"

text \<open>The same stub with the decoder of the standard library, for an interpreter that
  gives up at nesting depth 1000 and has the default digit limit.\<close>

definition python_env :: "(exn + string) \<Rightarrow> (exn + string) \<Rightarrow> (string, nat) env" where
  "python_env extraction response =
     (stub_env extraction response)\<lparr>json_loads := py_loads (Some 1000) (Some 4300)\<rparr>"

definition stub_inputs :: "bool \<Rightarrow> bool \<Rightarrow> string inputs" where
  "stub_inputs analyze generate =
     \<lparr>jd = ''Go developer'',
      uploaded_file = Some ''cv.pdf'',
      company_name = ''Acme'',
      job_title = ''Engineer'',
      personal_message = ''Hello'',
      button = (\<lambda>l d. \<not> d \<and> (if l = ''Analyze Resume'' then analyze else generate))\<rparr>"


section \<open>Properties\<close>

subsection \<open>How the blocks extend the log\<close>

lemma emit_simps [simp]:
  "trace (emit e r) = trace r @ [e]"
  "processing (emit e r) = processing r"
  "world (emit e r) = world r"
  "resume_text (emit e r) = resume_text r"
  by (simp_all add: emit_def)

lemma set_processing_simps [simp]:
  "trace (set_processing b r) = trace r @ [SetProcessing b]"
  "processing (set_processing b r) = b"
  "world (set_processing b r) = world r"
  "resume_text (set_processing b r) = resume_text r"
  by (simp_all add: set_processing_def)

lemma except_finally_simps [simp]:
  "processing (except_finally res) = False"
  "resume_text (except_finally res) = resume_text (snd res)"
  "world (except_finally res) = world (snd res)"
  by (auto simp: except_finally_def split: prod.splits option.splits)

lemma quiet_simps [simp]:
  "quiet []"
  "quiet (e # es) = (\<not> is_flag e \<and> \<not> is_button e \<and> quiet es)"
  "quiet (es @ es') = (quiet es \<and> quiet es')"
  by (auto simp: quiet_def)

lemma quiet_no_flag: "quiet es \<Longrightarrow> SetProcessing b \<notin> set es"
  by (induction es) auto

lemma render_analysis_quiet:
  assumes "render_analysis js r = (ex, r')"
  shows "processing r' = processing r \<and> world r' = world r \<and> resume_text r' = resume_text r
         \<and> (\<exists>es. trace r' = trace r @ es \<and> quiet es)"
  using assms
  by (auto simp: render_analysis_def Let_def split: sum.splits if_splits)

lemma analyze_try_frame:
  assumes "analyze_try env inp f r = (ex, r')"
  shows "processing r' = processing r"
  using assms
  by (auto simp: analyze_try_def Let_def split: sum.splits prod.splits dest: render_analysis_quiet)

lemma analyze_try_quiet:
  assumes "analyze_try env inp f r = (ex, r')"
  shows "processing r' = processing r \<and> (\<exists>es. trace r' = trace r @ es \<and> quiet es)"
proof -
  have "processing r' = processing r" using assms by (rule analyze_try_frame)
  moreover have "\<exists>es. trace r' = trace r @ es \<and> quiet es"
    using assms
    by (auto simp: analyze_try_def Let_def split: sum.splits prod.splits dest!: render_analysis_quiet)
  ultimately show ?thesis by simp
qed

lemma cover_try_quiet:
  assumes "cover_try env inp r = (ex, r')"
  shows "processing r' = processing r \<and> (\<exists>es. trace r' = trace r @ es \<and> quiet es)"
  using assms
  by (auto simp: cover_try_def Let_def split: sum.splits prod.splits)

lemma except_finally_quiet:
  assumes "trace r' = trace r @ es" and "quiet es"
  shows "\<exists>es'. trace (except_finally (ex, r')) = trace r @ es' @ [SetProcessing False] \<and> quiet es'"
  using assms by (cases ex) (auto simp: except_finally_def)

lemma analyze_dispatch:
  assumes "button inp ''Analyze Resume'' (processing r)"
    and "jd inp \<noteq> []"
    and "uploaded_file inp = Some f"
  shows "\<exists>r' es. analyze_section env inp r = Continue r' \<and> \<not> processing r' \<and> quiet es \<and>
           trace r' = trace r @ [UI (Button ''Analyze Resume'' (processing r)), SetProcessing True]
                        @ es @ [SetProcessing False]"
proof -
  let ?r0 = "set_processing True (emit (UI (Button ''Analyze Resume'' (processing r))) r)"
  obtain ex r1 where t: "analyze_try env inp f ?r0 = (ex, r1)"
    by (cases "analyze_try env inp f ?r0")
  from analyze_try_quiet [OF t] obtain es where es: "trace r1 = trace ?r0 @ es" "quiet es"
    by blast
  from except_finally_quiet [OF es] obtain es' where
    es': "trace (except_finally (ex, r1)) = trace ?r0 @ es' @ [SetProcessing False]" "quiet es'"
    by blast
  have "analyze_section env inp r = Continue (except_finally (ex, r1))"
    using assms t by (simp add: analyze_section_def Let_def)
  with es' show ?thesis by auto
qed

lemma cover_dispatch:
  assumes "button inp ''Generate Cover Letter'' (processing r)"
    and "company_name inp \<noteq> []"
    and "job_title inp \<noteq> []"
  shows "\<exists>es. \<not> processing (cover_section env inp r) \<and> quiet es \<and>
           trace (cover_section env inp r) =
             trace r @ [UI (Button ''Generate Cover Letter'' (processing r)), SetProcessing True]
               @ es @ [SetProcessing False]"
proof -
  let ?r0 = "set_processing True (emit (UI (Button ''Generate Cover Letter'' (processing r))) r)"
  obtain ex r1 where t: "cover_try env inp ?r0 = (ex, r1)"
    by (cases "cover_try env inp ?r0")
  from cover_try_quiet [OF t] obtain es where es: "trace r1 = trace ?r0 @ es" "quiet es"
    by blast
  from except_finally_quiet [OF es] obtain es' where
    es': "trace (except_finally (ex, r1)) = trace ?r0 @ es' @ [SetProcessing False]" "quiet es'"
    by blast
  have "cover_section env inp r = except_finally (ex, r1)"
    using assms t by (simp add: cover_section_def Let_def)
  with es' show ?thesis by auto
qed

subsection \<open>A run that starts idle ends idle\<close>

lemma analyze_section_not_busy:
  "processing (state_of (analyze_section env inp r)) \<Longrightarrow> processing r"
  by (auto simp: analyze_section_def state_of_def Let_def split: option.splits if_splits)

lemma cover_section_not_busy:
  "processing (cover_section env inp r) \<Longrightarrow> processing r"
  by (auto simp: cover_section_def Let_def split: if_splits)

lemma startup_processing:
  "processing (state_of (startup env r)) = processing r"
  by (auto simp: startup_def state_of_def Let_def split: option.splits prod.splits)

lemma main_not_busy:
  assumes "\<not> init_session_state ss"
  shows "\<not> processing (main env inp ss w)"
proof (cases "startup env (initial ss w)")
  case (Return r)
  with startup_processing [of env "initial ss w"] assms show ?thesis
    by (simp add: main_def state_of_def initial_def)
next
  case (Continue r)
  with startup_processing [of env "initial ss w"] assms have r: "\<not> processing (render_form r)"
    by (simp add: state_of_def initial_def render_form_def)
  show ?thesis
  proof (cases "analyze_section env inp (render_form r)")
    case (Return r')
    with analyze_section_not_busy [of env inp "render_form r"] r Continue show ?thesis
      by (auto simp: main_def state_of_def)
  next
    case c: (Continue r')
    with analyze_section_not_busy [of env inp "render_form r"] r have "\<not> processing r'"
      by (auto simp: state_of_def)
    with cover_section_not_busy [of env inp r'] c Continue show ?thesis
      by (auto simp: main_def)
  qed
qed

subsection \<open>Independence from the state of the remote service\<close>

lemma view_world [simp]: "view (r\<lparr>world := w\<rparr>) = view r"
  by (simp add: view_def)

lemma view_render_analysis:
  assumes "view r = view r'"
  shows "fst (render_analysis js r) = fst (render_analysis js r') \<and>
         view (snd (render_analysis js r)) = view (snd (render_analysis js r'))"
  using assms
  by (auto simp: render_analysis_def Let_def view_def split: sum.splits)

lemma view_except_finally:
  assumes "fst a = fst b" and "view (snd a) = view (snd b)"
  shows "view (except_finally a) = view (except_finally b)"
  using assms
  by (cases a; cases b) (auto simp: except_finally_def view_def split: option.splits)

lemma view_analyze_try:
  assumes det: "\<And>p w w'. fst (get_gemini_response env p w) = fst (get_gemini_response env p w')"
    and v: "view r = view r'"
  shows "fst (analyze_try env inp f r) = fst (analyze_try env inp f r') \<and>
         view (snd (analyze_try env inp f r)) = view (snd (analyze_try env inp f r'))"
proof (cases "extract_pdf_text env f")
  case (Inl e)
  with v show ?thesis by (simp add: analyze_try_def Let_def view_def)
next
  case (Inr t)
  show ?thesis
  proof (cases "prepare_prompt env t (jd inp)")
    case (Inl e)
    with Inr v show ?thesis by (simp add: analyze_try_def Let_def view_def)
  next
    case p: (Inr input_prompt)
    obtain x w1 where g: "get_gemini_response env input_prompt (world r) = (x, w1)"
      by (cases "get_gemini_response env input_prompt (world r)")
    obtain x' w2 where g': "get_gemini_response env input_prompt (world r') = (x', w2)"
      by (cases "get_gemini_response env input_prompt (world r')")
    from det [of input_prompt "world r" "world r'"] g g' have x: "x' = x" by simp
    show ?thesis
    proof (cases x)
      case (Inl e)
      with Inr p g g' x v show ?thesis by (simp add: analyze_try_def Let_def view_def)
    next
      case resp: (Inr response)
      show ?thesis
      proof (cases "json_loads env response")
        case (Inl e)
        with Inr p g g' x resp v show ?thesis by (simp add: analyze_try_def Let_def view_def)
      next
        case js: (Inr response_json)
        let ?s = "emit (CallGemini input_prompt)
                    (emit (CallPreparePrompt t (jd inp))
                      (emit (CallExtract f)
                        (emit (UI (Spinner (emoji_chart @ '' Analyzing your resume...''))) r)
                       \<lparr>resume_text := Some t\<rparr>))\<lparr>world := w1\<rparr>"
        let ?s' = "emit (CallGemini input_prompt)
                    (emit (CallPreparePrompt t (jd inp))
                      (emit (CallExtract f)
                        (emit (UI (Spinner (emoji_chart @ '' Analyzing your resume...''))) r')
                       \<lparr>resume_text := Some t\<rparr>))\<lparr>world := w2\<rparr>"
        have "view ?s = view ?s'" using v by (simp add: view_def)
        from view_render_analysis [OF this, of response_json]
        show ?thesis using Inr p g g' x resp js by (simp add: analyze_try_def Let_def)
      qed
    qed
  qed
qed

lemma view_cover_try:
  assumes det: "\<And>p w w'. fst (get_gemini_response env p w) = fst (get_gemini_response env p w')"
    and v: "view r = view r'"
  shows "fst (cover_try env inp r) = fst (cover_try env inp r') \<and>
         view (snd (cover_try env inp r)) = view (snd (cover_try env inp r'))"
proof (cases "cover_letter_prompt (job_title inp) (company_name inp) (personal_message inp)
                (resume_text r) (jd inp)")
  case (Inl e)
  with v show ?thesis by (simp add: cover_try_def Let_def view_def)
next
  case (Inr prompt)
  obtain x w1 where g: "get_gemini_response env prompt (world r) = (x, w1)"
    by (cases "get_gemini_response env prompt (world r)")
  obtain x' w2 where g': "get_gemini_response env prompt (world r') = (x', w2)"
    by (cases "get_gemini_response env prompt (world r')")
  from det [of prompt "world r" "world r'"] g g' have x: "x' = x" by simp
  from Inr v g g' x show ?thesis
    by (cases x) (simp_all add: cover_try_def Let_def view_def)
qed

lemma view_analyze_section:
  assumes det: "\<And>p w w'. fst (get_gemini_response env p w) = fst (get_gemini_response env p w')"
    and v: "view r = view r'"
  shows "(\<exists>a b. analyze_section env inp r = Return a \<and> analyze_section env inp r' = Return b \<and> view a = view b)
       \<or> (\<exists>a b. analyze_section env inp r = Continue a \<and> analyze_section env inp r' = Continue b \<and> view a = view b)"
proof (cases "button inp ''Analyze Resume'' (processing r) \<and> jd inp \<noteq> [] \<and> uploaded_file inp \<noteq> None")
  case True
  then obtain f where f: "uploaded_file inp = Some f" by auto
  let ?s = "set_processing True (emit (UI (Button ''Analyze Resume'' (processing r))) r)"
  let ?s' = "set_processing True (emit (UI (Button ''Analyze Resume'' (processing r'))) r')"
  have "view ?s = view ?s'" using v by (simp add: view_def)
  from view_analyze_try [OF det this, of inp f]
  have "view (except_finally (analyze_try env inp f ?s)) = view (except_finally (analyze_try env inp f ?s'))"
    by (intro view_except_finally) simp_all
  moreover have "processing r' = processing r" using v by (simp add: view_def)
  ultimately show ?thesis using True f by (simp add: analyze_section_def Let_def)
next
  case False
  moreover have "processing r' = processing r" using v by (simp add: view_def)
  ultimately show ?thesis using v
    by (auto simp: analyze_section_def Let_def view_def split: option.splits)
qed

lemma view_cover_section:
  assumes det: "\<And>p w w'. fst (get_gemini_response env p w) = fst (get_gemini_response env p w')"
    and v: "view r = view r'"
  shows "view (cover_section env inp r) = view (cover_section env inp r')"
proof (cases "button inp ''Generate Cover Letter'' (processing r) \<and> company_name inp \<noteq> [] \<and> job_title inp \<noteq> []")
  case True
  let ?s = "set_processing True (emit (UI (Button ''Generate Cover Letter'' (processing r))) r)"
  let ?s' = "set_processing True (emit (UI (Button ''Generate Cover Letter'' (processing r'))) r')"
  have "view ?s = view ?s'" using v by (simp add: view_def)
  from view_cover_try [OF det this, of inp]
  have "view (except_finally (cover_try env inp ?s)) = view (except_finally (cover_try env inp ?s'))"
    by (intro view_except_finally) simp_all
  moreover have "processing r' = processing r" using v by (simp add: view_def)
  ultimately show ?thesis using True by (simp add: cover_section_def Let_def)
next
  case False
  moreover have "processing r' = processing r" using v by (simp add: view_def)
  ultimately show ?thesis using v
    by (auto simp: cover_section_def Let_def view_def)
qed

lemma view_startup:
  assumes det: "\<And>k w w'. fst (configure_genai env k w) = fst (configure_genai env k w')"
    and v: "view r = view r'"
  shows "(\<exists>a b. startup env r = Return a \<and> startup env r' = Return b \<and> view a = view b)
       \<or> (\<exists>a b. startup env r = Continue a \<and> startup env r' = Continue b \<and> view a = view b)"
proof (cases "getenv env")
  case None
  with v show ?thesis by (simp add: startup_def view_def)
next
  case (Some k)
  obtain x w1 where g: "configure_genai env k (world r) = (x, w1)"
    by (cases "configure_genai env k (world r)")
  obtain x' w2 where g': "configure_genai env k (world r') = (x', w2)"
    by (cases "configure_genai env k (world r')")
  from det [of k "world r" "world r'"] g g' have x: "x' = x" by simp
  from Some v g g' x show ?thesis
    by (cases x) (simp_all add: startup_def Let_def view_def)
qed

lemma view_main:
  fixes env :: "('f, 'w) env"
  assumes det_c: "\<And>k w w'. fst (configure_genai env k w) = fst (configure_genai env k w')"
    and det_g: "\<And>p w w'. fst (get_gemini_response env p w) = fst (get_gemini_response env p w')"
    and ss: "init_session_state ss = init_session_state ss'"
  shows "view (main env inp ss w) = view (main env inp ss' w')"
proof -
  have v0: "view (initial ss w :: ('f, 'w) run) = view (initial ss' w')"
    using ss by (simp add: view_def initial_def)
  from view_startup [OF det_c v0] show ?thesis
  proof (elim disjE exE conjE)
    fix a b assume "startup env (initial ss w) = Return a" "startup env (initial ss' w') = Return b"
      "view a = view b"
    then show ?thesis by (simp add: main_def)
  next
    fix a b assume s: "startup env (initial ss w) = Continue a" "startup env (initial ss' w') = Continue b"
      and v: "view a = view b"
    from v have vf: "view (render_form a) = view (render_form b)"
      by (simp add: view_def render_form_def)
    from view_analyze_section [OF det_g vf, of inp] show ?thesis
    proof (elim disjE exE conjE)
      fix c d assume "analyze_section env inp (render_form a) = Return c"
        "analyze_section env inp (render_form b) = Return d" "view c = view d"
      with s show ?thesis by (simp add: main_def)
    next
      fix c d assume "analyze_section env inp (render_form a) = Continue c"
        "analyze_section env inp (render_form b) = Continue d" "view c = view d"
      with s view_cover_section [OF det_g, of c d inp] show ?thesis by (simp add: main_def)
    qed
  qed
qed

subsection \<open>When the resume text stays unbound\<close>

lemma startup_resume_text:
  "resume_text (state_of (startup env r)) = resume_text r"
  by (auto simp: startup_def state_of_def Let_def split: option.splits prod.splits)

lemma analyze_section_unbound:
  assumes "analyze_section env inp r = Continue r'"
    and "resume_text r = None"
    and "\<not> button inp ''Analyze Resume'' (processing r)
         \<or> (\<exists>f e. uploaded_file inp = Some f \<and> extract_pdf_text env f = Inl e)"
  shows "resume_text r' = None"
  using assms
  by (auto simp: analyze_section_def analyze_try_def Let_def split: if_splits)

subsection \<open>The triggers on screen while the flag is set\<close>

lemma disabled_while_busy_guarded:
  "disabled_while_busy st es \<Longrightarrow> guarded st"
  by (cases es) simp_all

lemma disabled_while_busy_append:
  "disabled_while_busy st (es @ es') \<Longrightarrow>
     disabled_while_busy st es \<and> disabled_while_busy (fold screen_step es st) es'"
proof (induction es arbitrary: st)
  case Nil
  then show ?case by (auto dest: disabled_while_busy_guarded)
next
  case (Cons e es)
  then show ?case by simp
qed

lemma dispatch_unguarded:
  assumes "l = ''Analyze Resume'' \<or> l = ''Generate Cover Letter''"
  shows "\<not> disabled_while_busy st (pre @ [UI (Button l False), SetProcessing True] @ es)"
proof
  assume "disabled_while_busy st (pre @ [UI (Button l False), SetProcessing True] @ es)"
  then have "disabled_while_busy st ((pre @ [UI (Button l False), SetProcessing True]) @ es)"
    by simp
  from disabled_while_busy_append [OF this]
  have "disabled_while_busy (fold screen_step (pre @ [UI (Button l False), SetProcessing True]) st) es"
    by simp
  then have "guarded (fold screen_step (pre @ [UI (Button l False), SetProcessing True]) st)"
    by (rule disabled_while_busy_guarded)
  with assms show False
    by (cases "fold screen_step pre st") (auto simp: guarded_def)
qed

lemma analyze_section_shape:
  "\<exists>es. quiet es \<and>
     ((processing (state_of (analyze_section env inp r)) = processing r \<and>
       trace (state_of (analyze_section env inp r)) =
         trace r @ UI (Button ''Analyze Resume'' (processing r)) # es)
      \<or> (\<not> processing (state_of (analyze_section env inp r)) \<and>
          trace (state_of (analyze_section env inp r)) =
            trace r @ [UI (Button ''Analyze Resume'' (processing r)), SetProcessing True]
              @ es @ [SetProcessing False]))"
proof (cases "button inp ''Analyze Resume'' (processing r) \<and> jd inp \<noteq> [] \<and> uploaded_file inp \<noteq> None")
  case True
  then obtain f where "uploaded_file inp = Some f" by auto
  with True analyze_dispatch [of inp r f env] show ?thesis
    by (auto simp: state_of_def)
next
  case False
  then show ?thesis
    by (auto simp: analyze_section_def state_of_def Let_def split: option.splits)
qed

lemma cover_section_shape:
  "\<exists>es. quiet es \<and>
     ((processing (cover_section env inp r) = processing r \<and>
       trace (cover_section env inp r) =
         trace r @ UI (Button ''Generate Cover Letter'' (processing r)) # es)
      \<or> (\<not> processing (cover_section env inp r) \<and>
          trace (cover_section env inp r) =
            trace r @ [UI (Button ''Generate Cover Letter'' (processing r)), SetProcessing True]
              @ es @ [SetProcessing False]))"
proof (cases "button inp ''Generate Cover Letter'' (processing r) \<and> company_name inp \<noteq> [] \<and> job_title inp \<noteq> []")
  case True
  with cover_dispatch [of inp r env] show ?thesis by auto
next
  case False
  then show ?thesis
    by (auto simp: cover_section_def Let_def)
qed

lemma not_button_not_drawn: "\<not> is_button e \<Longrightarrow> \<not> drawn_disabled e"
  by (cases e rule: drawn_disabled.cases) simp_all

lemma quiet_not_drawn: "quiet es \<Longrightarrow> list_all (\<lambda>e. \<not> drawn_disabled e) es"
  by (induction es) (simp_all add: not_button_not_drawn)

lemma unguarded_append:
  "\<not> disabled_while_busy st es \<Longrightarrow> \<not> disabled_while_busy st (es @ es')"
  using disabled_while_busy_append [of st es es'] by blast

lemma idle_run_quiet:
  assumes "idle_run r" and "quiet es" and "trace r' = trace r @ es"
    and "processing r' = processing r"
  shows "idle_run r'"
proof -
  have p: "\<not> processing r'" using assms(1,4) by (simp add: idle_run_def)
  have d: "list_all (\<lambda>e. \<not> drawn_disabled e) (trace r')"
    using assms(1,2,3) by (simp add: idle_run_def quiet_not_drawn)
  have u: "\<not> disabled_while_busy (False, Map.empty) (trace r')"
    if "SetProcessing True \<in> set (trace r')"
  proof -
    from that assms(2,3) quiet_no_flag [of es True] have "SetProcessing True \<in> set (trace r)"
      by auto
    with assms(1) have "\<not> disabled_while_busy (False, Map.empty) (trace r)"
      by (simp add: idle_run_def)
    then show ?thesis unfolding assms(3) by (rule unguarded_append)
  qed
  from p d u show ?thesis by (simp add: idle_run_def)
qed

lemma idle_run_step:
  assumes "idle_run r" and "quiet es"
    and "l = ''Analyze Resume'' \<or> l = ''Generate Cover Letter''"
    and "(processing r' = processing r \<and> trace r' = trace r @ UI (Button l (processing r)) # es)
         \<or> (\<not> processing r' \<and>
             trace r' = trace r @ [UI (Button l (processing r)), SetProcessing True]
               @ es @ [SetProcessing False])"
  shows "idle_run r'"
proof -
  have idle: "\<not> processing r" using assms(1) by (simp add: idle_run_def)
  have old: "list_all (\<lambda>e. \<not> drawn_disabled e) (trace r)"
    using assms(1) by (simp add: idle_run_def)
  from assms(4) show ?thesis
  proof
    assume a: "processing r' = processing r \<and> trace r' = trace r @ UI (Button l (processing r)) # es"
    then have t: "trace r' = trace r @ (UI (Button l False) # es)" using idle by simp
    have p: "\<not> processing r'" using a idle by simp
    have d: "list_all (\<lambda>e. \<not> drawn_disabled e) (trace r')"
      using old assms(2) t by (simp add: quiet_not_drawn)
    have u: "\<not> disabled_while_busy (False, Map.empty) (trace r')"
      if "SetProcessing True \<in> set (trace r')"
    proof -
      from that t assms(2) quiet_no_flag [of es True] have "SetProcessing True \<in> set (trace r)"
        by auto
      with assms(1) have "\<not> disabled_while_busy (False, Map.empty) (trace r)"
        by (simp add: idle_run_def)
      then show ?thesis unfolding t by (rule unguarded_append)
    qed
    from p d u show ?thesis by (simp add: idle_run_def)
  next
    assume a: "\<not> processing r' \<and>
               trace r' = trace r @ [UI (Button l (processing r)), SetProcessing True]
                 @ es @ [SetProcessing False]"
    then have t: "trace r' = trace r @ [UI (Button l False), SetProcessing True] @ (es @ [SetProcessing False])"
      using idle by simp
    have u: "\<not> disabled_while_busy (False, Map.empty) (trace r')"
      unfolding t by (rule dispatch_unguarded [OF assms(3)])
    have d: "list_all (\<lambda>e. \<not> drawn_disabled e) (trace r')"
      using old assms(2) t by (simp add: quiet_not_drawn)
    from a d u show ?thesis by (simp add: idle_run_def)
  qed
qed

lemma startup_idle_run:
  assumes "\<not> init_session_state ss"
  shows "idle_run (state_of (startup env (initial ss w)))"
  using assms
  by (auto simp: idle_run_def startup_def initial_def state_of_def Let_def
      split: option.splits prod.splits)

lemma main_idle_run:
  assumes "\<not> init_session_state ss"
  shows "idle_run (main env inp ss w)"
proof (cases "startup env (initial ss w)")
  case (Return r)
  with startup_idle_run [OF assms, of env w] show ?thesis
    by (simp add: main_def state_of_def)
next
  case (Continue r)
  with startup_idle_run [OF assms, of env w] have r: "idle_run r"
    by (simp add: state_of_def)
  have q: "quiet (form_events :: 'a event list)" by (simp add: form_events_def)
  have f: "idle_run (render_form r)"
    by (rule idle_run_quiet [OF r q]) (simp_all add: render_form_def)
  from analyze_section_shape [of env inp "render_form r"] obtain es where es: "quiet es" and
    s: "(processing (state_of (analyze_section env inp (render_form r))) = processing (render_form r) \<and>
       trace (state_of (analyze_section env inp (render_form r))) =
         trace (render_form r) @ UI (Button ''Analyze Resume'' (processing (render_form r))) # es)
      \<or> (\<not> processing (state_of (analyze_section env inp (render_form r))) \<and>
          trace (state_of (analyze_section env inp (render_form r))) =
            trace (render_form r) @ [UI (Button ''Analyze Resume'' (processing (render_form r))), SetProcessing True]
              @ es @ [SetProcessing False])"
    by blast
  have a: "idle_run (state_of (analyze_section env inp (render_form r)))"
    by (rule idle_run_step [OF f es _ s]) simp
  show ?thesis
  proof (cases "analyze_section env inp (render_form r)")
    case (Return r')
    with a Continue show ?thesis by (simp add: main_def state_of_def)
  next
    case c: (Continue r')
    with a have r': "idle_run r'" by (simp add: state_of_def)
    from cover_section_shape [of env inp r'] obtain es' where es': "quiet es'" and
      s': "(processing (cover_section env inp r') = processing r' \<and>
         trace (cover_section env inp r') =
           trace r' @ UI (Button ''Generate Cover Letter'' (processing r')) # es')
        \<or> (\<not> processing (cover_section env inp r') \<and>
            trace (cover_section env inp r') =
              trace r' @ [UI (Button ''Generate Cover Letter'' (processing r')), SetProcessing True]
                @ es' @ [SetProcessing False])"
      by blast
    have "idle_run (cover_section env inp r')"
      by (rule idle_run_step [OF r' es' _ s']) simp
    with c Continue show ?thesis by (simp add: main_def)
  qed
qed

subsection \<open>Texts the decoder rejects\<close>

lemma lex_number_start:
  assumes "c \<noteq> CHR ''-''" and "\<not> is_digit c"
  shows "lex_number md (c # cs) = None"
  using assms by (simp add: lex_number_def is_digit_def Let_def)

lemma parse_closing_first:
  assumes "t = TRBrace \<or> t = TRBrack \<or> t = TColon \<or> t = TComma"
  shows "parse d (t # ts) [] Val = None"
  using assms by (auto simp: parse_step_def value_token_def)

lemma decode_needs_start:
  assumes "lex k md s = Some ts" and "\<not> starts_value s"
  shows "parse d ts [] Val = None"
  using assms
proof (induction s arbitrary: ts)
  case Nil
  then show ?case by simp
next
  case (Cons c cs)
  show ?case
  proof (cases "is_ws c")
    case True
    with Cons show ?thesis by (simp add: starts_value_def)
  next
    case False
    with Cons.prems(2) have c: "c \<noteq> CHR 0x22" "c \<notin> set ''{[-0123456789tfnNI''"
      by (simp_all add: starts_value_def)
    then have n: "lex_number md (c # cs) = None"
      by (intro lex_number_start) (auto simp: is_digit_def)
    from c have l: "take 4 (c # cs) \<noteq> ''null''" "take 4 (c # cs) \<noteq> ''true''"
      "take 5 (c # cs) \<noteq> ''false''" "take 3 (c # cs) \<noteq> ''NaN''"
      "take 8 (c # cs) \<noteq> ''Infinity''" "take 9 (c # cs) \<noteq> ''-Infinity''"
      by auto
    from c have b: "c \<noteq> CHR ''{''" "c \<noteq> CHR ''[''" by auto
    from Cons.prems(1) False c(1) b n l
    have "\<exists>t ts'. ts = t # ts' \<and> (t = TRBrace \<or> t = TRBrack \<or> t = TColon \<or> t = TComma)"
      by (auto split: if_splits)
    then show ?thesis by (auto simp del: parse.simps simp: parse_closing_first)
  qed
qed

lemma py_loads_needs_start:
  "\<not> starts_value s \<Longrightarrow> py_loads depth digits s = Inl DecodeError"
  by (cases "lex True digits s") (simp_all add: py_loads_def json_decode_def decode_needs_start)

subsection \<open>Unfolding for concrete runs\<close>

lemmas stub_defs = stub_env_def stub_inputs_def stub_loads_def response_full_def
  response_no_keywords_def response_fenced_def response_nan_def response_number_keyword_def
  response_list_match_def response_truncated_def python_env_def initial_def init_session_state_def

lemmas run_defs = main_def startup_def render_form_def form_events_def analyze_section_def
  analyze_try_def render_analysis_def cover_section_def cover_try_def cover_letter_prompt_def
  except_finally_def set_processing_def emit_def py_get_def py_join_def truthy_def
  metric_accepts_def is_JStr_def str_of_def Let_def

text \<open>The decoder on the responses of the stubs; on the two that the stub decoder
  accepts it returns the same value.\<close>

lemmas decoder_defs = py_loads_def json_decode_def valid_json_def parse_step_def value_token_def
  key_token_def too_deep_def py_dict_def lex_number_def is_ws_def is_digit_def digit_val_def
  nat_of_digits_def simple_escape_def Let_def

lemma py_loads_fenced: "py_loads (Some 1000) (Some 4300) response_fenced = Inl DecodeError"
  by (rule py_loads_needs_start) (simp add: starts_value_def response_fenced_def is_ws_def)

lemma py_loads_nan:
  "py_loads (Some 1000) (Some 4300) response_nan = Inr (JObj [(''JD Match'', JFloat NaN)])"
  by (simp add: response_nan_def decoder_defs)

lemma not_valid_nan: "\<not> valid_json response_nan"
  by (simp add: response_nan_def decoder_defs)

lemma py_loads_number_keyword:
  "py_loads (Some 1000) (Some 4300) response_number_keyword =
     Inr (JObj [(''MissingKeywords'', JArr [JStr ''Go'', JInt 5])])"
  by (simp add: response_number_keyword_def decoder_defs)

lemma py_loads_list_match:
  "py_loads (Some 1000) (Some 4300) response_list_match =
     Inr (JObj [(''JD Match'', JArr [JStr ''80%''])])"
  by (simp add: response_list_match_def decoder_defs)

lemma py_loads_full:
  "py_loads (Some 1000) (Some 4300) response_full = stub_loads response_full"
  by (simp add: stub_loads_def response_full_def decoder_defs)

lemma py_loads_no_keywords:
  "py_loads (Some 1000) (Some 4300) response_no_keywords = stub_loads response_no_keywords"
  by (simp add: stub_loads_def response_no_keywords_def response_full_def decoder_defs)


subsection \<open>The busy flag is released\<close>

text \<open>
  Claim C1. An action that passed validation sets the busy flag and, whatever happens in
  its \<open>try\<close> block (success, or an exception from extraction, from the prompt builder,
  from the model call, from decoding or from rendering), ends with the flag assigned
  \<open>False\<close>: the log of the action is the button, \<open>SetProcessing True\<close>, a stretch
  that does not touch the flag, and \<open>SetProcessing False\<close>. This holds for Analyze and
  for Generate Cover Letter; and a run of \<open>main\<close> that starts idle ends idle.
\<close>

theorem processing_released:
  "(button inp ''Analyze Resume'' (processing r) \<and> jd inp \<noteq> [] \<and> uploaded_file inp = Some f \<longrightarrow>
      (\<exists>r' es. analyze_section env inp r = Continue r' \<and> \<not> processing r' \<and> quiet es \<and>
         trace r' = trace r @ [UI (Button ''Analyze Resume'' (processing r)), SetProcessing True]
                      @ es @ [SetProcessing False]))
   \<and> (button inp ''Generate Cover Letter'' (processing r) \<and> company_name inp \<noteq> [] \<and> job_title inp \<noteq> [] \<longrightarrow>
      (\<exists>es. \<not> processing (cover_section env inp r) \<and> quiet es \<and>
         trace (cover_section env inp r) =
           trace r @ [UI (Button ''Generate Cover Letter'' (processing r)), SetProcessing True]
             @ es @ [SetProcessing False]))
   \<and> (\<not> init_session_state ss \<longrightarrow> \<not> processing (main env inp ss w))"
  using analyze_dispatch [of inp r f env] cover_dispatch [of inp r env] main_not_busy [of ss env inp w]
  by blast

theorem processing_released_witness:
  "\<not> processing (state_of (analyze_section (stub_env (Inl (Raised ''EOF marker not found'')) (Inr ''{}''))
        (stub_inputs True False) (initial None 0)))
   \<and> \<not> processing (cover_section (stub_env (Inr ''resume'') (Inl (Raised ''429 quota exceeded'')))
        (stub_inputs False True) ((initial None 0)\<lparr>resume_text := Some ''resume''\<rparr>))
   \<and> \<not> processing (main (stub_env (Inr ''resume'') (Inr response_fenced)) (stub_inputs True True) None 0)"
  using processing_released [where inp = "stub_inputs True False" and r = "initial None 0"
      and f = "''cv.pdf''" and env = "stub_env (Inl (Raised ''EOF marker not found'')) (Inr ''{}'')"
      and ss = None and w = 0]
    processing_released [where inp = "stub_inputs False True"
      and r = "(initial None 0)\<lparr>resume_text := Some ''resume''\<rparr>"
      and f = "''cv.pdf''" and env = "stub_env (Inr ''resume'') (Inl (Raised ''429 quota exceeded''))"
      and ss = None and w = 0]
    processing_released [where inp = "stub_inputs True True" and r = "initial None 0"
      and f = "''cv.pdf''" and env = "stub_env (Inr ''resume'') (Inr response_fenced)"
      and ss = None and w = 0]
  by (auto simp: stub_defs state_of_def)

subsection \<open>A response the decoder rejects\<close>

text \<open>
  Claim C2, as amended. When \<open>json.loads\<close> rejects the model's response, and it rejects
  every response whose first character after the whitespace cannot begin a JSON value, as
  with JSON wrapped in prose or in a markdown fence, the Analyze action shows the error
  \<open>An error occurred: ...\<close> for the decoder's exception and renders nothing of an
  analysis: no success banner, no metric, no keywords, no summary. The log of the action is
  exactly the one given, and the flag is released.
\<close>

theorem undecodable_response_is_error:
  assumes "json_loads env = py_loads depth digits"
    and "button inp ''Analyze Resume'' (processing r)"
    and "jd inp \<noteq> []"
    and "uploaded_file inp = Some f"
    and "extract_pdf_text env f = Inr resume"
    and "prepare_prompt env resume (jd inp) = Inr p"
    and "get_gemini_response env p (world r) = (Inr response, w)"
    and "\<not> starts_value response \<or> py_loads depth digits response = Inl e"
  shows "analyze_section env inp r =
           Continue (r\<lparr>processing := False, resume_text := Some resume, world := w,
             trace := trace r @
               [UI (Button ''Analyze Resume'' (processing r)),
                SetProcessing True,
                UI (Spinner (emoji_chart @ '' Analyzing your resume...'')),
                CallExtract f,
                CallPreparePrompt resume (jd inp),
                CallGemini p,
                UI (Error (TextExn ''An error occurred: '' DecodeError)),
                SetProcessing False]\<rparr>)"
proof -
  from assms(8) have "py_loads depth digits response = Inl DecodeError"
    by (auto simp: py_loads_needs_start) (auto simp: py_loads_def split: option.splits)
  with assms(1-7) show ?thesis
    by (simp add: analyze_section_def analyze_try_def except_finally_def set_processing_def
        emit_def Let_def)
qed

theorem undecodable_response_is_error_witness:
  "analyze_section (python_env (Inr ''resume'') (Inr response_fenced)) (stub_inputs True False)
       (initial None 0) =
     Continue \<lparr>processing = False, resume_text = Some ''resume'', world = 1,
        trace =
          [UI (Button ''Analyze Resume'' False),
           SetProcessing True,
           UI (Spinner (emoji_chart @ '' Analyzing your resume...'')),
           CallExtract ''cv.pdf'',
           CallPreparePrompt ''resume'' ''Go developer'',
           CallGemini ''resume | Go developer'',
           UI (Error (TextExn ''An error occurred: '' DecodeError)),
           SetProcessing False]\<rparr>
   \<and> analyze_section (python_env (Inr ''resume'') (Inr response_truncated)) (stub_inputs True False)
       (initial None 0) =
     Continue \<lparr>processing = False, resume_text = Some ''resume'', world = 1,
        trace =
          [UI (Button ''Analyze Resume'' False),
           SetProcessing True,
           UI (Spinner (emoji_chart @ '' Analyzing your resume...'')),
           CallExtract ''cv.pdf'',
           CallPreparePrompt ''resume'' ''Go developer'',
           CallGemini ''resume | Go developer'',
           UI (Error (TextExn ''An error occurred: '' DecodeError)),
           SetProcessing False]\<rparr>
   \<and> \<not> starts_value response_fenced
   \<and> starts_value response_truncated"
  using undecodable_response_is_error [where inp = "stub_inputs True False" and r = "initial None 0"
      and f = "''cv.pdf''" and env = "python_env (Inr ''resume'') (Inr response_fenced)"
      and depth = "Some 1000" and digits = "Some 4300"
      and resume = "''resume''" and p = "''resume | Go developer''" and response = response_fenced
      and w = 1 and e = DecodeError]
    undecodable_response_is_error [where inp = "stub_inputs True False" and r = "initial None 0"
      and f = "''cv.pdf''" and env = "python_env (Inr ''resume'') (Inr response_truncated)"
      and depth = "Some 1000" and digits = "Some 4300"
      and resume = "''resume''" and p = "''resume | Go developer''" and response = response_truncated
      and w = 1 and e = DecodeError]
  by (simp add: stub_defs starts_value_def decoder_defs)

text \<open>
  The claim as it was stated speaks of every response that is not valid JSON. The text
  \<open>{"JD Match": NaN}\<close> is not valid JSON, \<open>json.loads\<close> decodes it all the same, and
  the run renders an analysis and shows no error.
\<close>

theorem nan_response_rendered_counterexample:
  "\<not> valid_json response_nan
   \<and> main (python_env (Inr ''resume'') (Inr response_nan)) (stub_inputs True False) None 0 =
     \<lparr>processing = False, resume_text = Some ''resume'', world = 1,
      trace = CallConfigure ''test-key'' # form_events @
        [UI (Button ''Analyze Resume'' False),
         SetProcessing True,
         UI (Spinner (emoji_chart @ '' Analyzing your resume...'')),
         CallExtract ''cv.pdf'',
         CallPreparePrompt ''resume'' ''Go developer'',
         CallGemini ''resume | Go developer'',
         UI (Success (emoji_sparkles @ '' Analysis Complete!'')),
         UI (Metric ''Match Score'' (JFloat NaN)),
         UI (Subheader ''Missing Keywords''),
         UI (Write (JStr ''No critical missing keywords found!'')),
         UI (Subheader ''Profile Summary''),
         UI (Write (JStr ''No summary available'')),
         SetProcessing False,
         UI (Button ''Generate Cover Letter'' False)]\<rparr>"
  by (simp add: stub_defs run_defs decoder_defs)

subsection \<open>Rendering a decoded object\<close>

text \<open>
  Claim C3, as amended. When the response decodes to a JSON object whose \<open>"JD Match"\<close>
  value is absent or one that \<open>st.metric\<close> takes (a string, a number, a boolean or null)
  and whose \<open>"MissingKeywords"\<close> value is absent or a list of strings, the Analyze action
  renders the value of \<open>"JD Match"\<close> (default \<open>"N/A"\<close>) as the match score, the value of
  \<open>"Profile Summary"\<close> (default \<open>"No summary available"\<close>) as the summary, and as the
  keywords line the strings joined with \<open>", "\<close> in their order, duplicates kept, when
  the list is not empty, and the fixed text \<open>No critical missing keywords found!\<close> when
  the key is absent or the list is empty. No absent key raises.
\<close>

theorem analysis_render:
  assumes "button inp ''Analyze Resume'' (processing r)"
    and "jd inp \<noteq> []"
    and "uploaded_file inp = Some f"
    and "extract_pdf_text env f = Inr resume"
    and "prepare_prompt env resume (jd inp) = Inr p"
    and "get_gemini_response env p (world r) = (Inr response, w)"
    and "json_loads env response = Inr (JObj kvs)"
    and "metric_accepts (case map_of kvs ''JD Match'' of None \<Rightarrow> JStr ''N/A'' | Some v \<Rightarrow> v)"
    and "(case map_of kvs ''MissingKeywords'' of None \<Rightarrow> JArr [] | Some v \<Rightarrow> v) = JArr ks"
    and "list_all is_JStr ks"
  shows "analyze_section env inp r =
           Continue (r\<lparr>processing := False, resume_text := Some resume, world := w,
             trace := trace r @
               [UI (Button ''Analyze Resume'' (processing r)),
                SetProcessing True,
                UI (Spinner (emoji_chart @ '' Analyzing your resume...'')),
                CallExtract f,
                CallPreparePrompt resume (jd inp),
                CallGemini p,
                UI (Success (emoji_sparkles @ '' Analysis Complete!'')),
                UI (Metric ''Match Score''
                      (case map_of kvs ''JD Match'' of None \<Rightarrow> JStr ''N/A'' | Some v \<Rightarrow> v)),
                UI (Subheader ''Missing Keywords''),
                UI (Write (JStr (if ks = [] then ''No critical missing keywords found!''
                                 else join '', '' (map str_of ks)))),
                UI (Subheader ''Profile Summary''),
                UI (Write (case map_of kvs ''Profile Summary'' of
                             None \<Rightarrow> JStr ''No summary available'' | Some v \<Rightarrow> v)),
                SetProcessing False]\<rparr>)"
  using assms
  by (simp add: analyze_section_def analyze_try_def render_analysis_def except_finally_def
      set_processing_def emit_def py_get_def py_join_def truthy_def Let_def)

theorem analysis_render_witness:
  "analyze_section (python_env (Inr ''resume'') (Inr response_full)) (stub_inputs True False)
       (initial None 0) =
     Continue \<lparr>processing = False, resume_text = Some ''resume'', world = 1,
        trace =
          [UI (Button ''Analyze Resume'' False),
           SetProcessing True,
           UI (Spinner (emoji_chart @ '' Analyzing your resume...'')),
           CallExtract ''cv.pdf'',
           CallPreparePrompt ''resume'' ''Go developer'',
           CallGemini ''resume | Go developer'',
           UI (Success (emoji_sparkles @ '' Analysis Complete!'')),
           UI (Metric ''Match Score'' (JStr ''80%'')),
           UI (Subheader ''Missing Keywords''),
           UI (Write (JStr ''Kubernetes, Go'')),
           UI (Subheader ''Profile Summary''),
           UI (Write (JStr ''Strong backend candidate'')),
           SetProcessing False]\<rparr>"
  using analysis_render [where inp = "stub_inputs True False" and r = "initial None 0"
      and f = "''cv.pdf''" and env = "python_env (Inr ''resume'') (Inr response_full)"
      and resume = "''resume''" and p = "''resume | Go developer''" and response = response_full
      and w = 1 and ks = "[JStr ''Kubernetes'', JStr ''Go'']"
      and kvs = "[(''JD Match'', JStr ''80%''),
                  (''MissingKeywords'', JArr [JStr ''Kubernetes'', JStr ''Go'']),
                  (''Profile Summary'', JStr ''Strong backend candidate'')]"]
  by (simp add: stub_defs decoder_defs is_JStr_def str_of_def metric_accepts_def)

text \<open>
  The claim as it was stated holds for every decoded object. Three responses show where it
  does not: an empty keyword list is rendered as the fixed text and not as the empty join;
  a keyword list that holds a number makes \<open>join\<close> raise, and no keywords line is
  rendered; a \<open>"JD Match"\<close> that is a list makes \<open>st.metric\<close> raise, and no match score
  is rendered.
\<close>

theorem analysis_render_counterexample:
  "drop 17 (trace (main (python_env (Inr ''resume'') (Inr response_no_keywords))
                     (stub_inputs True False) None 0)) =
       [UI (Success (emoji_sparkles @ '' Analysis Complete!'')),
        UI (Metric ''Match Score'' (JStr ''80%'')),
        UI (Subheader ''Missing Keywords''),
        UI (Write (JStr ''No critical missing keywords found!'')),
        UI (Subheader ''Profile Summary''),
        UI (Write (JStr ''No summary available'')),
        SetProcessing False,
        UI (Button ''Generate Cover Letter'' False)]
   \<and> join '', '' [] \<noteq> ''No critical missing keywords found!''
   \<and> drop 17 (trace (main (python_env (Inr ''resume'') (Inr response_number_keyword))
                     (stub_inputs True False) None 0)) =
       [UI (Success (emoji_sparkles @ '' Analysis Complete!'')),
        UI (Metric ''Match Score'' (JStr ''N/A'')),
        UI (Subheader ''Missing Keywords''),
        UI (Error (TextExn ''An error occurred: '' TypeError)),
        SetProcessing False,
        UI (Button ''Generate Cover Letter'' False)]
   \<and> drop 17 (trace (main (python_env (Inr ''resume'') (Inr response_list_match))
                     (stub_inputs True False) None 0)) =
       [UI (Success (emoji_sparkles @ '' Analysis Complete!'')),
        UI (Error (TextExn ''An error occurred: '' TypeError)),
        SetProcessing False,
        UI (Button ''Generate Cover Letter'' False)]"
  by (simp add: stub_defs run_defs decoder_defs)

subsection \<open>Validation of the Analyze action\<close>

text \<open>
  Claim C4. When the Analyze button fires and the job description is empty or no file was
  uploaded, the action draws the button and one warning and returns from \<open>main\<close>: the
  run state is otherwise unchanged, so the flag is not set and neither the extractor, the
  prompt builder nor the model is called. For the whole run: its log holds no such call
  and no assignment to the flag, and the flag ends as it started.
\<close>

theorem analyze_validation_aborts:
  assumes "jd inp = [] \<or> uploaded_file inp = None"
  shows "(button inp ''Analyze Resume'' (processing r) \<longrightarrow>
            analyze_section env inp r =
              Return (r\<lparr>trace := trace r @
                [UI (Button ''Analyze Resume'' (processing r)),
                 UI (Warning (Text (if jd inp = [] then ''Please provide a job description.''
                                    else ''Please upload a resume in PDF format.'')))]\<rparr>))
       \<and> (button inp ''Analyze Resume'' (init_session_state ss) \<longrightarrow>
            list_all (\<lambda>e. \<not> is_call e \<and> \<not> is_flag e) (trace (main env inp ss w)) \<and>
            processing (main env inp ss w) = init_session_state ss)"
  using assms
  by (auto simp: main_def startup_def initial_def render_form_def form_events_def
      analyze_section_def emit_def Let_def split: option.splits prod.splits)

theorem analyze_validation_aborts_witness:
  "main (stub_env (Inr ''resume'') (Inr response_full))
        ((stub_inputs True False)\<lparr>uploaded_file := None\<rparr>) None 0 =
     \<lparr>processing = False, resume_text = None, world = 0,
      trace = CallConfigure ''test-key'' # form_events @
        [UI (Button ''Analyze Resume'' False),
         UI (Warning (Text ''Please upload a resume in PDF format.''))]\<rparr>
   \<and> list_all (\<lambda>e. \<not> is_call e \<and> \<not> is_flag e)
        (trace (main (stub_env (Inr ''resume'') (Inr response_full))
                  ((stub_inputs True False)\<lparr>uploaded_file := None\<rparr>) None 0))"
  using analyze_validation_aborts [where inp = "(stub_inputs True False)\<lparr>uploaded_file := None\<rparr>"
      and r = "render_form ((initial None 0)\<lparr>trace := [CallConfigure ''test-key'']\<rparr>)"
      and env = "stub_env (Inr ''resume'') (Inr response_full)" and ss = None and w = 0]
  by (simp add: stub_defs run_defs)

subsection \<open>Validation of the Generate Cover Letter action\<close>

text \<open>
  Claim C5. When the Generate Cover Letter button fires and the company name or the job
  title is empty, the action draws the button and the warning and ends: no prompt is built,
  the model is not called and the flag is not set. When the Analyze button did not fire in
  the same run, the log of the whole run holds no call and no assignment to the flag.
\<close>

theorem cover_validation_aborts:
  assumes "company_name inp = [] \<or> job_title inp = []"
  shows "(button inp ''Generate Cover Letter'' (processing r) \<longrightarrow>
            cover_section env inp r =
              r\<lparr>trace := trace r @
                [UI (Button ''Generate Cover Letter'' (processing r)),
                 UI (Warning (Text ''Please provide company name and job title for the cover letter.''))]\<rparr>)
       \<and> (\<not> button inp ''Analyze Resume'' (init_session_state ss) \<longrightarrow>
            list_all (\<lambda>e. \<not> is_call e \<and> \<not> is_flag e) (trace (main env inp ss w)) \<and>
            processing (main env inp ss w) = init_session_state ss)"
  using assms
  by (auto simp: main_def startup_def initial_def render_form_def form_events_def
      analyze_section_def cover_section_def emit_def Let_def split: option.splits prod.splits)

theorem cover_validation_aborts_witness:
  "main (stub_env (Inr ''resume'') (Inr response_full))
        ((stub_inputs False True)\<lparr>job_title := []\<rparr>) None 0 =
     \<lparr>processing = False, resume_text = None, world = 0,
      trace = CallConfigure ''test-key'' # form_events @
        [UI (Button ''Analyze Resume'' False),
         UI (Button ''Generate Cover Letter'' False),
         UI (Warning (Text ''Please provide company name and job title for the cover letter.''))]\<rparr>
   \<and> list_all (\<lambda>e. \<not> is_call e \<and> \<not> is_flag e)
        (trace (main (stub_env (Inr ''resume'') (Inr response_full))
                  ((stub_inputs False True)\<lparr>job_title := []\<rparr>) None 0))"
  using cover_validation_aborts [where inp = "(stub_inputs False True)\<lparr>job_title := []\<rparr>"
      and r = "emit (UI (Button ''Analyze Resume'' False))
                 (render_form ((initial None 0)\<lparr>trace := [CallConfigure ''test-key'']\<rparr>))"
      and env = "stub_env (Inr ''resume'') (Inr response_full)" and ss = None and w = 0]
  by (simp add: stub_defs run_defs)

subsection \<open>The busy flag and the triggers\<close>

text \<open>
  Claim C6 asks that the triggers be disabled whenever the busy flag is set. The script
  passes the flag as \<open>disabled\<close> when it draws a trigger, but it sets the flag after it has
  drawn the Analyze button and clears it before it draws the Generate Cover Letter button.
  So in every run that starts idle no trigger is drawn disabled, and in every such run that
  sets the flag there is a moment at which the flag is set and a trigger on screen is
  enabled.
\<close>

theorem triggers_enabled_while_busy:
  assumes "\<not> init_session_state ss"
  shows "list_all (\<lambda>e. \<not> drawn_disabled e) (trace (main env inp ss w))
       \<and> (SetProcessing True \<in> set (trace (main env inp ss w)) \<longrightarrow>
            \<not> disabled_while_busy (False, Map.empty) (trace (main env inp ss w)))"
  using main_idle_run [OF assms, of env inp w] by (simp add: idle_run_def)

theorem triggers_enabled_while_busy_witness:
  "take 3 (drop 11 (trace (main (stub_env (Inr ''resume'') (Inr response_full)) (stub_inputs True False) None 0))) =
     [UI (Button ''Analyze Resume'' False), SetProcessing True,
      UI (Spinner (emoji_chart @ '' Analyzing your resume...''))]
   \<and> SetProcessing True \<in>
        set (trace (main (stub_env (Inr ''resume'') (Inr response_full)) (stub_inputs True False) None 0))
   \<and> \<not> disabled_while_busy (False, Map.empty)
        (trace (main (stub_env (Inr ''resume'') (Inr response_full)) (stub_inputs True False) None 0))
   \<and> list_all (\<lambda>e. \<not> drawn_disabled e)
        (trace (main (stub_env (Inr ''resume'') (Inr response_full)) (stub_inputs True False) None 0))"
proof -
  let ?t = "trace (main (stub_env (Inr ''resume'') (Inr response_full)) (stub_inputs True False) None 0)"
  have i: "\<not> init_session_state None" by (simp add: init_session_state_def)
  have a: "take 3 (drop 11 ?t) =
     [UI (Button ''Analyze Resume'' False), SetProcessing True,
      UI (Spinner (emoji_chart @ '' Analyzing your resume...''))]"
    by (simp add: stub_defs run_defs)
  have b: "SetProcessing True \<in> set ?t"
    by (simp add: stub_defs run_defs)
  from triggers_enabled_while_busy [OF i, of "stub_env (Inr ''resume'') (Inr response_full)"
      "stub_inputs True False" 0] a b
  show ?thesis by simp
qed

subsection \<open>Startup\<close>

text \<open>
  Claim C7. When the API key is absent (or empty), the run shows one error and returns:
  its log is that single error, so no sidebar, no input widget and no button is drawn. When
  configuring the client raises, the log is the call and the error, and nothing else.
\<close>

theorem startup_failure_halts:
  "(getenv env = None \<or> getenv env = Some [] \<longrightarrow>
      main env inp ss w =
        \<lparr>processing = init_session_state ss, resume_text = None, world = w,
         trace = [UI (Error (Text ''Please set the GOOGLE_API_KEY in your .env file''))]\<rparr>)
   \<and> (getenv env = Some k \<and> k \<noteq> [] \<and> configure_genai env k w = (Some e, w') \<longrightarrow>
      main env inp ss w =
        \<lparr>processing = init_session_state ss, resume_text = None, world = w',
         trace = [CallConfigure k, UI (Error (TextExn ''Failed to configure API: '' e))]\<rparr>)"
  by (auto simp: main_def startup_def initial_def emit_def Let_def)

theorem startup_failure_halts_witness:
  "main ((stub_env (Inr ''resume'') (Inr response_full))\<lparr>getenv := None\<rparr>) (stub_inputs True True) None 0 =
     \<lparr>processing = False, resume_text = None, world = 0,
      trace = [UI (Error (Text ''Please set the GOOGLE_API_KEY in your .env file''))]\<rparr>
   \<and> main ((stub_env (Inr ''resume'') (Inr response_full))
             \<lparr>configure_genai := (\<lambda>k w. (Some (Raised ''API key not valid''), Suc w))\<rparr>)
        (stub_inputs True True) None 0 =
     \<lparr>processing = False, resume_text = None, world = 1,
      trace = [CallConfigure ''test-key'',
               UI (Error (TextExn ''Failed to configure API: '' (Raised ''API key not valid'')))]\<rparr>"
  using startup_failure_halts [where env = "(stub_env (Inr ''resume'') (Inr response_full))\<lparr>getenv := None\<rparr>"
      and inp = "stub_inputs True True" and ss = None and w = 0]
    startup_failure_halts [where env = "(stub_env (Inr ''resume'') (Inr response_full))
             \<lparr>configure_genai := (\<lambda>k w. (Some (Raised ''API key not valid''), Suc w))\<rparr>"
      and inp = "stub_inputs True True" and ss = None and w = 0 and k = "''test-key''"
      and e = "Raised ''API key not valid''" and w' = 1]
  by (simp add: stub_defs)

subsection \<open>The cover letter without a resume text\<close>

text \<open>
  Claim C8, as amended. In a run that reaches the Generate Cover Letter button with
  \<open>resume_text\<close> still unbound, that is, where the Analyze button did not fire or the
  PDF extraction of the Analyze action raised, a Generate Cover Letter trigger that passes
  validation fails while building the prompt: the action shows the error for the
  \<open>UnboundLocalError\<close>, calls nothing, produces no cover letter, and releases the flag.
\<close>

theorem cover_without_resume_fails:
  assumes "startup env (initial ss w) = Continue r0"
    and "analyze_section env inp (render_form r0) = Continue r1"
    and "\<not> button inp ''Analyze Resume'' (init_session_state ss)
         \<or> (\<exists>f e. uploaded_file inp = Some f \<and> extract_pdf_text env f = Inl e)"
    and "button inp ''Generate Cover Letter'' (processing r1)"
    and "company_name inp \<noteq> []"
    and "job_title inp \<noteq> []"
  shows "main env inp ss w =
           r1\<lparr>processing := False,
              trace := trace r1 @
                [UI (Button ''Generate Cover Letter'' (processing r1)),
                 SetProcessing True,
                 UI (Spinner (emoji_memo @ '' Generating cover letter...'')),
                 UI (Error (TextExn ''An error occurred: '' (UnboundLocalError ''resume_text''))),
                 SetProcessing False]\<rparr>"
proof -
  from assms(1) startup_resume_text [of env "initial ss w"] startup_processing [of env "initial ss w"]
  have r0: "resume_text (render_form r0) = None" "processing (render_form r0) = init_session_state ss"
    by (simp_all add: state_of_def initial_def render_form_def)
  from analyze_section_unbound [OF assms(2) r0(1)] assms(3) r0(2)
  have "resume_text r1 = None" by simp
  with assms(4-6) have "cover_section env inp r1 =
           r1\<lparr>processing := False,
              trace := trace r1 @
                [UI (Button ''Generate Cover Letter'' (processing r1)),
                 SetProcessing True,
                 UI (Spinner (emoji_memo @ '' Generating cover letter...'')),
                 UI (Error (TextExn ''An error occurred: '' (UnboundLocalError ''resume_text''))),
                 SetProcessing False]\<rparr>"
    by (simp add: cover_section_def cover_try_def cover_letter_prompt_def except_finally_def
        set_processing_def emit_def Let_def)
  with assms(1,2) show ?thesis by (simp add: main_def)
qed

theorem cover_without_resume_fails_witness:
  "main (stub_env (Inr ''resume'') (Inr ''Dear Acme'')) (stub_inputs False True) None 0 =
     \<lparr>processing = False, resume_text = None, world = 0,
      trace = CallConfigure ''test-key'' # form_events @
        [UI (Button ''Analyze Resume'' False),
         UI (Button ''Generate Cover Letter'' False),
         SetProcessing True,
         UI (Spinner (emoji_memo @ '' Generating cover letter...'')),
         UI (Error (TextExn ''An error occurred: '' (UnboundLocalError ''resume_text''))),
         SetProcessing False]\<rparr>
   \<and> main (stub_env (Inl (Raised ''EOF marker not found'')) (Inr ''Dear Acme'')) (stub_inputs True True) None 0 =
     \<lparr>processing = False, resume_text = None, world = 0,
      trace = CallConfigure ''test-key'' # form_events @
        [UI (Button ''Analyze Resume'' False),
         SetProcessing True,
         UI (Spinner (emoji_chart @ '' Analyzing your resume...'')),
         CallExtract ''cv.pdf'',
         UI (Error (TextExn ''An error occurred: '' (Raised ''EOF marker not found''))),
         SetProcessing False,
         UI (Button ''Generate Cover Letter'' False),
         SetProcessing True,
         UI (Spinner (emoji_memo @ '' Generating cover letter...'')),
         UI (Error (TextExn ''An error occurred: '' (UnboundLocalError ''resume_text''))),
         SetProcessing False]\<rparr>"
  using cover_without_resume_fails [where env = "stub_env (Inr ''resume'') (Inr ''Dear Acme'')"
      and inp = "stub_inputs False True" and ss = None and w = 0
      and ?r0.0 = "(initial None 0)\<lparr>trace := [CallConfigure ''test-key'']\<rparr>"
      and ?r1.0 = "(initial None 0)\<lparr>trace := CallConfigure ''test-key'' # form_events @
                     [UI (Button ''Analyze Resume'' False)]\<rparr>"]
    cover_without_resume_fails [where env = "stub_env (Inl (Raised ''EOF marker not found'')) (Inr ''Dear Acme'')"
      and inp = "stub_inputs True True" and ss = None and w = 0
      and ?r0.0 = "(initial None 0)\<lparr>trace := [CallConfigure ''test-key'']\<rparr>"
      and ?r1.0 = "(initial None 0)\<lparr>trace := CallConfigure ''test-key'' # form_events @
                     [UI (Button ''Analyze Resume'' False),
                      SetProcessing True,
                      UI (Spinner (emoji_chart @ '' Analyzing your resume...'')),
                      CallExtract ''cv.pdf'',
                      UI (Error (TextExn ''An error occurred: '' (Raised ''EOF marker not found''))),
                      SetProcessing False]\<rparr>"]
  by (simp add: stub_defs startup_def analyze_section_def analyze_try_def except_finally_def
      set_processing_def render_form_def emit_def Let_def)

text \<open>
  The claim as it was stated asks for this failure whenever no successful Analyze ran
  before in the same run. Where Analyze ran and failed after the extraction (here: the
  response is not JSON), \<open>resume_text\<close> is bound, and the cover letter is generated from it.
\<close>

theorem cover_after_failed_analyze_counterexample:
  "UI (Success (emoji_sparkles @ '' Analysis Complete!'')) \<notin>
     set (trace (main (stub_env (Inr ''resume'') (Inr ''Dear Acme'')) (stub_inputs True True) None 0))
   \<and> UI (Error (TextExn ''An error occurred: '' (UnboundLocalError ''resume_text''))) \<notin>
     set (trace (main (stub_env (Inr ''resume'') (Inr ''Dear Acme'')) (stub_inputs True True) None 0))
   \<and> drop 17 (trace (main (stub_env (Inr ''resume'') (Inr ''Dear Acme'')) (stub_inputs True True) None 0)) =
       [UI (Error (TextExn ''An error occurred: '' (Raised ''Expecting value: line 1 column 1 (char 0)''))),
        SetProcessing False,
        UI (Button ''Generate Cover Letter'' False),
        SetProcessing True,
        UI (Spinner (emoji_memo @ '' Generating cover letter...'')),
        CallGemini (nl @
            ''                Act as an expert cover letter writer. Write a personalized cover letter for the following job application:'' @ nl @
            nl @
            ''                Job Title: Engineer'' @ nl @
            ''                Company: Acme'' @ nl @
            ''                Personal Message: Hello'' @ nl @
            nl @
            ''                Resume:'' @ nl @
            ''                resume'' @ nl @
            nl @
            ''                Job Description:'' @ nl @
            ''                Go developer'' @ nl @
            nl @
            ''                Provide a professional and persuasive cover letter.'' @ nl @
            ''                ''),
        UI (Subheader ''Generated Cover Letter''),
        UI (Write (JStr ''Dear Acme'')),
        UI (DownloadButton ''Download Cover Letter'' ''Dear Acme'' ''cover_letter.txt'' ''text/plain''),
        SetProcessing False]"
  by (simp add: stub_defs run_defs nl_def emoji_sparkles_def emoji_chart_def emoji_dart_def
      emoji_page_def emoji_memo_def)

subsection \<open>Running twice\<close>

text \<open>
  Claim C9. With a client whose answers do not depend on the state of the remote service,
  a second run of \<open>main\<close> with the same inputs, started from the session and the service
  state the first run left behind, has the same log as the first: the same widgets with
  the same match score, keywords line and summary. The first run starts idle.
\<close>

theorem analyze_twice_identical:
  assumes det_c: "\<And>k w w'. fst (configure_genai env k w) = fst (configure_genai env k w')"
    and det_g: "\<And>p w w'. fst (get_gemini_response env p w) = fst (get_gemini_response env p w')"
    and idle: "\<not> init_session_state ss"
  shows "trace (main env inp (Some (processing (main env inp ss w))) (world (main env inp ss w)))
           = trace (main env inp ss w)"
proof -
  have "\<not> processing (main env inp ss w)" using idle by (rule main_not_busy)
  with idle have "init_session_state (Some (processing (main env inp ss w))) = init_session_state ss"
    by (simp add: init_session_state_def)
  from view_main [OF det_c det_g this] show ?thesis by (simp add: view_def)
qed

theorem analyze_twice_identical_witness:
  "world (main (stub_env (Inr ''resume'') (Inr response_full)) (stub_inputs True False) None 0) = 1
   \<and> processing (main (stub_env (Inr ''resume'') (Inr response_full)) (stub_inputs True False) None 0) = False
   \<and> trace (main (stub_env (Inr ''resume'') (Inr response_full)) (stub_inputs True False) (Some False) 1)
     = trace (main (stub_env (Inr ''resume'') (Inr response_full)) (stub_inputs True False) None 0)
   \<and> UI (Write (JStr ''Kubernetes, Go'')) \<in>
       set (trace (main (stub_env (Inr ''resume'') (Inr response_full)) (stub_inputs True False) None 0))"
proof -
  let ?env = "stub_env (Inr ''resume'') (Inr response_full)"
  have c: "\<And>k w w'. fst (configure_genai ?env k w) = fst (configure_genai ?env k (w'::nat))"
    by (simp add: stub_env_def)
  have g: "\<And>p w w'. fst (get_gemini_response ?env p w) = fst (get_gemini_response ?env p (w'::nat))"
    by (simp add: stub_env_def)
  have i: "\<not> init_session_state None" by (simp add: init_session_state_def)
  have w: "world (main ?env (stub_inputs True False) None 0) = 1"
    by (simp add: stub_defs run_defs)
  have p: "processing (main ?env (stub_inputs True False) None 0) = False"
    by (simp add: stub_defs run_defs)
  have k: "UI (Write (JStr ''Kubernetes, Go'')) \<in> set (trace (main ?env (stub_inputs True False) None 0))"
    by (simp add: stub_defs run_defs)
  from analyze_twice_identical [OF c g i, of "stub_inputs True False" 0] w p k
  show ?thesis by simp
qed

subsection \<open>The keywords line for no keywords\<close>

text \<open>
  Claim C10. For a decoded object whose \<open>"MissingKeywords"\<close> is absent or the empty
  list, the keywords section, whenever it is rendered, shows the fixed text
  \<open>No critical missing keywords found!\<close>, which is not the join of the empty list; for a
  non-empty list of strings it shows the join. The section is rendered unless
  \<open>st.metric\<close> refused the match score, in which case the block ends after the banner.
\<close>

theorem empty_keywords_fixed_text:
  "(map_of kvs ''MissingKeywords'' = None \<or> map_of kvs ''MissingKeywords'' = Some (JArr []) \<longrightarrow>
      render_analysis (JObj kvs) r =
        (if metric_accepts (case map_of kvs ''JD Match'' of None \<Rightarrow> JStr ''N/A'' | Some v \<Rightarrow> v)
         then
           (None, r\<lparr>trace := trace r @
              [UI (Success (emoji_sparkles @ '' Analysis Complete!'')),
               UI (Metric ''Match Score''
                     (case map_of kvs ''JD Match'' of None \<Rightarrow> JStr ''N/A'' | Some v \<Rightarrow> v)),
               UI (Subheader ''Missing Keywords''),
               UI (Write (JStr ''No critical missing keywords found!'')),
               UI (Subheader ''Profile Summary''),
               UI (Write (case map_of kvs ''Profile Summary'' of
                            None \<Rightarrow> JStr ''No summary available'' | Some v \<Rightarrow> v))]\<rparr>)
         else
           (Some TypeError, r\<lparr>trace := trace r @
              [UI (Success (emoji_sparkles @ '' Analysis Complete!''))]\<rparr>)))
   \<and> (map_of kvs ''MissingKeywords'' = Some (JArr (k # ks)) \<and> list_all is_JStr (k # ks) \<longrightarrow>
      render_analysis (JObj kvs) r =
        (if metric_accepts (case map_of kvs ''JD Match'' of None \<Rightarrow> JStr ''N/A'' | Some v \<Rightarrow> v)
         then
           (None, r\<lparr>trace := trace r @
              [UI (Success (emoji_sparkles @ '' Analysis Complete!'')),
               UI (Metric ''Match Score''
                     (case map_of kvs ''JD Match'' of None \<Rightarrow> JStr ''N/A'' | Some v \<Rightarrow> v)),
               UI (Subheader ''Missing Keywords''),
               UI (Write (JStr (join '', '' (map str_of (k # ks))))),
               UI (Subheader ''Profile Summary''),
               UI (Write (case map_of kvs ''Profile Summary'' of
                            None \<Rightarrow> JStr ''No summary available'' | Some v \<Rightarrow> v))]\<rparr>)
         else
           (Some TypeError, r\<lparr>trace := trace r @
              [UI (Success (emoji_sparkles @ '' Analysis Complete!''))]\<rparr>)))
   \<and> join '', '' (map str_of []) \<noteq> ''No critical missing keywords found!''"
  by (auto simp: render_analysis_def py_get_def py_join_def truthy_def emit_def Let_def)

theorem empty_keywords_fixed_text_witness:
  "render_analysis (JObj [(''JD Match'', JStr ''80%''), (''MissingKeywords'', JArr [])])
       ((initial None 0) :: (string, nat) run) =
     (None, \<lparr>processing = False, resume_text = None, world = 0,
        trace =
          [UI (Success (emoji_sparkles @ '' Analysis Complete!'')),
           UI (Metric ''Match Score'' (JStr ''80%'')),
           UI (Subheader ''Missing Keywords''),
           UI (Write (JStr ''No critical missing keywords found!'')),
           UI (Subheader ''Profile Summary''),
           UI (Write (JStr ''No summary available''))]\<rparr>)
   \<and> render_analysis (JObj [(''MissingKeywords'', JArr [JStr ''Go'', JStr ''Go''])])
       ((initial None 0) :: (string, nat) run) =
     (None, \<lparr>processing = False, resume_text = None, world = 0,
        trace =
          [UI (Success (emoji_sparkles @ '' Analysis Complete!'')),
           UI (Metric ''Match Score'' (JStr ''N/A'')),
           UI (Subheader ''Missing Keywords''),
           UI (Write (JStr ''Go, Go'')),
           UI (Subheader ''Profile Summary''),
           UI (Write (JStr ''No summary available''))]\<rparr>)
   \<and> render_analysis (JObj [(''JD Match'', JArr [JStr ''80%''])])
       ((initial None 0) :: (string, nat) run) =
     (Some TypeError, \<lparr>processing = False, resume_text = None, world = 0,
        trace = [UI (Success (emoji_sparkles @ '' Analysis Complete!''))]\<rparr>)"
  using empty_keywords_fixed_text [where kvs = "[(''JD Match'', JStr ''80%''), (''MissingKeywords'', JArr [])]"
      and r = "(initial None 0) :: (string, nat) run"]
    empty_keywords_fixed_text [where kvs = "[(''MissingKeywords'', JArr [JStr ''Go'', JStr ''Go''])]"
      and r = "(initial None 0) :: (string, nat) run" and k = "JStr ''Go''" and ks = "[JStr ''Go'']"]
    empty_keywords_fixed_text [where kvs = "[(''JD Match'', JArr [JStr ''80%''])]"
      and r = "(initial None 0) :: (string, nat) run"]
  by (simp add: stub_defs is_JStr_def str_of_def metric_accepts_def)

end
